theory Spec2Isabelle
  imports Main "HOL-Library.Word"
begin

section \<open>Values exchanged with the collaborators\<close>

text \<open>
  The file \<^verbatim>\<open>microstellar.go\<close> is the client handle of the package. It drives a
  transaction builder (\<^verbatim>\<open>*Tx\<close>), option bundles (\<^verbatim>\<open>*Options\<close>), asset descriptors
  and the \<^verbatim>\<open>build\<close> library of the ledger. Pointers to builders are addresses into an
  explicit store, because the handle keeps two pointers (\<^verbatim>\<open>tx\<close>, \<^verbatim>\<open>lastTx\<close>) that
  may name the same builder.
\<close>

type_synonym addr = nat

text \<open>\<^verbatim>\<open>type Params map[string]interface{}\<close>; the nil map is the empty list.\<close>

type_synonym Params = "(string \<times> string) list"

text \<open>
  Errors are values. \<open>Errorf\<close> is \<^verbatim>\<open>errors.Errorf(msg, args...)\<close> and \<open>Wrapf\<close> is
  \<^verbatim>\<open>errors.Wrapf(err, msg, args...)\<close> with the format string and its arguments kept
  apart; \<open>Collaborator\<close> is an error produced outside this file (validation, key pair,
  network).
\<close>

datatype error =
    Errorf string "string list"
  | Wrapf error string "string list"
  | Collaborator string

text \<open>A nil pointer dereference, Go's run-time panic.\<close>

datatype fault = NilDereference

datatype AssetType = NativeType | Credit4Type | Credit12Type

record Asset =
  Code :: string
  Issuer :: string
  Type :: AssetType

text \<open>
  Modelled from the spec: \<^verbatim>\<open>Asset.IsNative\<close> and \<^verbatim>\<open>NativeAsset\<close> are declared outside
  \<^verbatim>\<open>microstellar.go\<close>; an asset is native exactly when its type says so.
\<close>

definition IsNative :: "Asset \<Rightarrow> bool" where
  "IsNative a = (Type a = NativeType)"

definition NativeAsset :: Asset where
  "NativeAsset = \<lparr>Code = ''XLM'', Issuer = '''', Type = NativeType\<rparr>"

datatype Memo = MemoNone | MemoText string | MemoID nat | MemoHash string

text \<open>
  Modelled from the spec: the declaration of \<^verbatim>\<open>Options\<close> is outside
  \<^verbatim>\<open>microstellar.go\<close>. The fields \<open>sendAsset\<close>, \<open>maxAmount\<close>, \<open>path\<close> and
  \<open>sourceAddress\<close> are the ones \<^verbatim>\<open>Pay\<close> reads; the others are the spec's
  "list of additional signer credentials, memo, explicit source-account override for
  multi-op sessions".
\<close>

record Options =
  signerSeeds :: "string list"
  memo :: Memo
  multiOp :: bool
  multiOpSource :: string
  sendAsset :: "Asset option"
  maxAmount :: string
  path :: "Asset list"
  sourceAddress :: string

definition Opts :: Options where
  "Opts = \<lparr>signerSeeds = [], memo = MemoNone, multiOp = False, multiOpSource = '''',
            sendAsset = None, maxAmount = '''', path = [], sourceAddress = ''''\<rparr>"

definition WithAsset :: "Asset \<Rightarrow> string \<Rightarrow> Options \<Rightarrow> Options" where
  "WithAsset a m opts = opts\<lparr>sendAsset := Some a, maxAmount := m\<rparr>"

definition MultiOp :: "string \<Rightarrow> Options \<Rightarrow> Options" where
  "MultiOp sourceAccount opts = opts\<lparr>multiOp := True, multiOpSource := sourceAccount\<rparr>"

text \<open>
  Modelled from the spec: \<^verbatim>\<open>mergeOptions\<close> is outside \<^verbatim>\<open>microstellar.go\<close>. "Only
  zero or one options bundle is accepted per call; if the caller omits it, all fields
  take empty/absent defaults", and "only the first is honored if more are passed".
\<close>

definition mergeOptions :: "Options list \<Rightarrow> Options" where
  "mergeOptions opts = (case opts of [] \<Rightarrow> Opts | first # rest \<Rightarrow> first)"

subsection \<open>Operations of the \<^verbatim>\<open>build\<close> library\<close>

text \<open>
  \<^verbatim>\<open>build.PayWith(asset, max)\<close> starts with an empty path and \<^verbatim>\<open>Through\<close> appends one
  hop to it.
\<close>

datatype PayWithPath = PayWithPath Asset string "Asset list"

definition PayWith :: "Asset \<Rightarrow> string \<Rightarrow> PayWithPath" where
  "PayWith a m = PayWithPath a m []"

fun Through :: "PayWithPath \<Rightarrow> Asset \<Rightarrow> PayWithPath" where
  "Through (PayWithPath a m hops) h = PayWithPath a m (hops @ [h])"

datatype PaymentMutator =
    Destination string
  | NativeAmount string
  | CreditAmount string string string
  | PayPath PayWithPath

datatype Operation =
    CreateAccount string string
  | Payment "PaymentMutator list"
  | Trust string string "string option"
  | RemoveTrust string string
  | AllowTrustOp string string bool
  | MasterWeight "32 word"
  | SetFlag "32 word"
  | ClearFlag "32 word"
  | HomeDomain string
  | AddSignerOp string "32 word"
  | RemoveSignerOp string
  | SetThresholdsOp "32 word" "32 word" "32 word"
  | SetDataOp string string
  | ClearDataOp string

text \<open>One candidate route of the path resolver.\<close>

record Path =
  Hops :: "Asset list"
  SendAmount :: string
  DestAmount :: string

record PathQuery =
  q_sourceAddress :: string
  q_targetAddress :: string
  q_asset :: Asset
  q_amount :: string
  q_sendAsset :: "Asset option"
  q_maxAmount :: string

record TxResponse =
  Ledger :: nat
  Hash :: string

text \<open>What reaches the network in one submission.\<close>

record Envelope =
  env_network :: string
  env_ops :: "(string \<times> Operation) list"
  env_options :: "Options option"
  env_signatures :: "string list"

text \<open>
  Everything \<^verbatim>\<open>microstellar.go\<close> calls and does not define is a parameter: the validity
  predicates of the package, and the collaborators of the spec's section 6 (key pair,
  network client, path resolver, envelope codec). The network's answer may depend on the
  submissions made so far.
\<close>

record Collaborators =
  ValidAddressOrSeed :: "string \<Rightarrow> bool"
  ValidAddress :: "string \<Rightarrow> error option"
  Validate :: "Asset \<Rightarrow> error option"
  sign :: "string \<Rightarrow> error + string"
  submitEnvelope :: "Envelope list \<Rightarrow> Envelope \<Rightarrow> error + TxResponse"
  findPaths :: "PathQuery \<Rightarrow> error + Path list"
  encode :: "Envelope \<Rightarrow> error + string"

section \<open>The transaction builder\<close>

text \<open>
  Modelled from the spec: the type \<^verbatim>\<open>Tx\<close> and its methods are outside
  \<^verbatim>\<open>microstellar.go\<close>, which reads the field \<open>isMultiOp\<close> only. A transaction has a
  "target network binding, ordered sequence of operations, envelope-level options, a flag
  distinguishing single implicit operation from explicit multi-operation session, and
  post-signing/post-submission result state (signed payload, response, or error)".
\<close>

record Tx =
  tx_networkName :: string
  tx_params :: Params
  options :: "Options option"
  ops :: "(string \<times> Operation) list"
  isMultiOp :: bool
  signatures :: "string list"
  isSigned :: bool
  response :: "TxResponse option"
  tx_err :: "error option"

section \<open>The client handle and the world it acts on\<close>

text \<open>\<^verbatim>\<open>type MicroStellar struct\<close>, lines 51 to 58.\<close>

record MicroStellar =
  networkName :: string
  params :: Params
  fake :: bool
  tx :: "addr option"
  lastTx :: "addr option"
  lastErr :: "error option"

text \<open>
  The handle, the store of builders with the next free address, the submissions the network
  has received (oldest first) and the queries the path resolver has received.
\<close>

record world =
  ms :: MicroStellar
  store :: "addr \<Rightarrow> Tx"
  nxt :: addr
  submitted :: "Envelope list"
  pathQueries :: "PathQuery list"

definition blankTx :: "string \<Rightarrow> Params \<Rightarrow> Tx" where
  "blankTx n p = \<lparr>tx_networkName = n, tx_params = p, options = None, ops = [],
                   isMultiOp = False, signatures = [], isSigned = False, response = None,
                   tx_err = None\<rparr>"

text \<open>\<^verbatim>\<open>func New(networkName string, params ...Params) *MicroStellar\<close>, lines 85 to 98.\<close>

definition New :: "string \<Rightarrow> Params list \<Rightarrow> MicroStellar" where
  "New name ps =
     (let p = (if length ps > 0 then ps ! 0 else [])
      in \<lparr>networkName = name, params = p, fake = (name = ''fake''), tx = None,
           lastTx = None, lastErr = None\<rparr>)"

text \<open>The world of a handle that has done nothing yet.\<close>

definition fresh :: "MicroStellar \<Rightarrow> world" where
  "fresh h = \<lparr>ms = h, store = (\<lambda>a. blankTx '''' []), nxt = 0, submitted = [],
              pathQueries = []\<rparr>"

definition update_tx :: "addr \<Rightarrow> (Tx \<Rightarrow> Tx) \<Rightarrow> world \<Rightarrow> world" where
  "update_tx t f w = w\<lparr>store := (store w)(t := f (store w t))\<rparr>"

text \<open>
  Modelled from the spec: \<^verbatim>\<open>NewTx\<close> allocates a builder with no operation, no options,
  no result, and "single implicit operation" as its mode.
\<close>

definition NewTx :: "string \<Rightarrow> Params \<Rightarrow> world \<Rightarrow> addr \<times> world" where
  "NewTx name p w =
     (nxt w, w\<lparr>store := (store w)(nxt w := blankTx name p), nxt := Suc (nxt w)\<rparr>)"

text \<open>
  Modelled from the spec: \<^verbatim>\<open>Tx.SetOptions\<close> applies a bundle to the builder; a bundle
  that carries the multi-op mark of \<^verbatim>\<open>Options.MultiOp\<close> turns the builder into a session
  builder, and nothing turns it back. \<^verbatim>\<open>Tx.WithOptions\<close> does the same and returns the
  builder.
\<close>

definition SetOptions :: "addr \<Rightarrow> Options \<Rightarrow> world \<Rightarrow> world" where
  "SetOptions t opts w =
     update_tx t (\<lambda>T. T\<lparr>options := Some opts, isMultiOp := (isMultiOp T \<or> multiOp opts)\<rparr>) w"

definition WithOptions :: "addr \<Rightarrow> Options \<Rightarrow> world \<Rightarrow> addr \<times> world" where
  "WithOptions t opts w = (t, SetOptions t opts w)"

text \<open>
  Modelled from the spec: \<^verbatim>\<open>Tx.Build(sourceAccount, op)\<close> appends one operation with its
  source account to the builder's sequence, after those already there ("operations are
  NOT reordered"), and makes no network call.
\<close>

definition Build :: "addr \<Rightarrow> string \<Rightarrow> Operation \<Rightarrow> world \<Rightarrow> world" where
  "Build t sourceAccount operation w =
     update_tx t (\<lambda>T. T\<lparr>ops := ops T @ [(sourceAccount, operation)]\<rparr>) w"

text \<open>
  Modelled from the spec: the signer context of section 4.2. With no bundle, or a bundle
  without signers, the signers are those the caller of \<^verbatim>\<open>Sign\<close> passes (the source of the
  operation), and for a session builder the session's source account; a bundle with at
  least one signer replaces them.
\<close>

definition signerContext :: "Tx \<Rightarrow> string list \<Rightarrow> string list" where
  "signerContext T keys =
     (case options T of
        None \<Rightarrow> keys
      | Some opts \<Rightarrow>
          if signerSeeds opts \<noteq> [] then signerSeeds opts
          else if isMultiOp T then [multiOpSource opts]
          else keys)"

text \<open>Each signer signs in turn; the first failure is the result.\<close>

fun signAll :: "(string \<Rightarrow> error + string) \<Rightarrow> string list \<Rightarrow> error + string list" where
  "signAll sg [] = Inr []"
| "signAll sg (k # ks) =
     (case sg k of
        Inl e \<Rightarrow> Inl e
      | Inr s \<Rightarrow> (case signAll sg ks of Inl e \<Rightarrow> Inl e | Inr ss \<Rightarrow> Inr (s # ss)))"

text \<open>
  Modelled from the spec: \<^verbatim>\<open>Tx.Sign(keys...)\<close>, section 4.4: "each signer must
  independently produce a valid signature; signature order is signer-argument order and
  is preserved in the envelope". A signer that cannot sign leaves its error in the builder.
\<close>

definition Tx_Sign :: "Collaborators \<Rightarrow> addr \<Rightarrow> string list \<Rightarrow> world \<Rightarrow> world" where
  "Tx_Sign E t keys w =
     (case signAll (sign E) (signerContext (store w t) keys) of
        Inl e \<Rightarrow> update_tx t (\<lambda>T. T\<lparr>tx_err := Some e\<rparr>) w
      | Inr sigs \<Rightarrow> update_tx t (\<lambda>T. T\<lparr>signatures := sigs, isSigned := True\<rparr>) w)"

definition envelopeOf :: "Tx \<Rightarrow> Envelope" where
  "envelopeOf T = \<lparr>env_network = tx_networkName T, env_ops = ops T,
                    env_options = options T, env_signatures = signatures T\<rparr>"

text \<open>
  Modelled from the spec: \<^verbatim>\<open>Tx.Submit()\<close>, section 4.4: "send the signed envelope to the
  network endpoint; capture the structured response or a structured failure". A builder
  that holds an error (its signing failed) sends nothing.
\<close>

definition Tx_Submit :: "Collaborators \<Rightarrow> addr \<Rightarrow> world \<Rightarrow> world" where
  "Tx_Submit E t w =
     (case tx_err (store w t) of
        Some e \<Rightarrow> w
      | None \<Rightarrow>
          let envelope = envelopeOf (store w t);
              w1 = w\<lparr>submitted := submitted w @ [envelope]\<rparr>
          in (case submitEnvelope E (submitted w) envelope of
                Inl e \<Rightarrow> update_tx t (\<lambda>T. T\<lparr>tx_err := Some e\<rparr>) w1
              | Inr r \<Rightarrow> update_tx t (\<lambda>T. T\<lparr>response := Some r\<rparr>) w1))"

text \<open>
  Modelled from the spec: \<^verbatim>\<open>Tx.Payload()\<close>, section 4.1: "sign, produce encoded payload
  WITHOUT submitting".
\<close>

definition Tx_Payload :: "Collaborators \<Rightarrow> addr \<Rightarrow> world \<Rightarrow> (string \<times> error option) \<times> world" where
  "Tx_Payload E t w =
     (let w1 = Tx_Sign E t [] w
      in (case tx_err (store w1 t) of
            Some e \<Rightarrow> (('''', Some e), w1)
          | None \<Rightarrow>
              (case encode E (envelopeOf (store w1 t)) of
                 Inl e \<Rightarrow> (('''', Some e), update_tx t (\<lambda>T. T\<lparr>tx_err := Some e\<rparr>) w1)
               | Inr payload \<Rightarrow> ((payload, None), w1))))"

text \<open>Modelled from the spec: \<^verbatim>\<open>Tx.Err()\<close> reads the error of the result state.\<close>

definition Tx_Err :: "addr \<Rightarrow> world \<Rightarrow> error option" where
  "Tx_Err t w = tx_err (store w t)"

text \<open>\<^verbatim>\<open>sourceAccount(addressOrSeed)\<close> wraps the string for the \<^verbatim>\<open>build\<close> library.\<close>

definition sourceAccount :: "string \<Rightarrow> string" where
  "sourceAccount addressOrSeed = addressOrSeed"

section \<open>The handle's helpers\<close>

text \<open>\<^verbatim>\<open>getTx\<close>, lines 128 to 140.\<close>

definition getTx :: "world \<Rightarrow> addr \<times> world" where
  "getTx w =
     (case tx (ms w) of
        Some t \<Rightarrow> (t, w)
      | None \<Rightarrow> NewTx (networkName (ms w)) (params (ms w)) w)"

text \<open>\<^verbatim>\<open>err\<close>, \<^verbatim>\<open>success\<close>, \<^verbatim>\<open>errorf\<close> and \<^verbatim>\<open>wrapf\<close>, lines 155 to 176.\<close>

definition err :: "error option \<Rightarrow> world \<Rightarrow> error option \<times> world" where
  "err e w = (let w1 = w\<lparr>ms := (ms w)\<lparr>lastErr := e\<rparr>\<rparr> in (lastErr (ms w1), w1))"

definition success :: "world \<Rightarrow> error option \<times> world" where
  "success w = (let w1 = w\<lparr>ms := (ms w)\<lparr>lastErr := None\<rparr>\<rparr> in (lastErr (ms w1), w1))"

definition errorf :: "string \<Rightarrow> string list \<Rightarrow> world \<Rightarrow> error option \<times> world" where
  "errorf msg args w =
     (let w1 = w\<lparr>ms := (ms w)\<lparr>lastErr := Some (Errorf msg args)\<rparr>\<rparr> in (lastErr (ms w1), w1))"

definition wrapf :: "error \<Rightarrow> string \<Rightarrow> string list \<Rightarrow> world \<Rightarrow> error option \<times> world" where
  "wrapf e msg args w =
     (let w1 = w\<lparr>ms := (ms w)\<lparr>lastErr := Some (Wrapf e msg args)\<rparr>\<rparr> in (lastErr (ms w1), w1))"

text \<open>\<^verbatim>\<open>signAndSubmit\<close>, lines 143 to 152.\<close>

definition signAndSubmit :: "Collaborators \<Rightarrow> addr \<Rightarrow> string list \<Rightarrow> world \<Rightarrow> error option \<times> world" where
  "signAndSubmit E t signers w =
     (let w1 = (if \<not> isMultiOp (store w t) then Tx_Submit E t (Tx_Sign E t signers w) else w);
          w2 = w1\<lparr>ms := (ms w1)\<lparr>lastTx := Some t\<rparr>\<rparr>
      in err (Tx_Err t w2) w2)"

text \<open>\<^verbatim>\<open>Err\<close>, lines 179 to 181.\<close>

definition Err :: "world \<Rightarrow> error option" where
  "Err w = lastErr (ms w)"

section \<open>Sessions\<close>

text \<open>\<^verbatim>\<open>Start\<close>, lines 209 to 212. It returns the handle, here the world that holds it.\<close>

definition Start :: "string \<Rightarrow> Options list \<Rightarrow> world \<Rightarrow> world" where
  "Start sourceSeed optionsV w =
     (let (t, w1) = NewTx (networkName (ms w)) (params (ms w)) w;
          (t', w2) = WithOptions t (MultiOp sourceSeed (mergeOptions optionsV)) w1
      in w2\<lparr>ms := (ms w2)\<lparr>tx := Some t'\<rparr>\<rparr>)"

text \<open>
  \<^verbatim>\<open>Submit\<close>, lines 216 to 230. The mode is read through \<^verbatim>\<open>tx\<close>, the signing and the
  submission go through \<^verbatim>\<open>ms.tx\<close>, and the error is read through \<^verbatim>\<open>ms.lastTx\<close>, which
  was assigned \<^verbatim>\<open>tx\<close> two lines before.
\<close>

definition Submit :: "Collaborators \<Rightarrow> world \<Rightarrow> fault + (error option \<times> world)" where
  "Submit E w =
     (let (t, w1) = getTx w
      in if \<not> isMultiOp (store w1 t)
         then Inr (errorf ''can't submit, not a multi-op transaction'' [] w1)
         else (case tx (ms w1) of
                 None \<Rightarrow> Inl NilDereference
               | Some mstx \<Rightarrow>
                   let w2 = Tx_Sign E mstx [] w1;
                       w3 = Tx_Submit E mstx w2;
                       w4 = w3\<lparr>ms := (ms w3)\<lparr>lastTx := Some t\<rparr>\<rparr>;
                       w5 = w4\<lparr>ms := (ms w4)\<lparr>tx := None\<rparr>\<rparr>
                   in (case lastTx (ms w5) of
                         None \<Rightarrow> Inl NilDereference
                       | Some l \<Rightarrow> Inr (err (Tx_Err l w5) w5))))"

text \<open>\<^verbatim>\<open>Payload\<close>, lines 234 to 245.\<close>

definition Payload :: "Collaborators \<Rightarrow> world \<Rightarrow> (string \<times> error option) \<times> world" where
  "Payload E w =
     (let (t, w1) = getTx w
      in if \<not> isMultiOp (store w1 t)
         then (let (e, w2) = errorf ''can't generate payload, Start() not called'' [] w1
               in (('''', e), w2))
         else (let ((payload, er), w2) = Tx_Payload E t w1;
                   w3 = w2\<lparr>ms := (ms w2)\<lparr>lastTx := Some t\<rparr>\<rparr>;
                   w4 = w3\<lparr>ms := (ms w3)\<lparr>tx := None\<rparr>\<rparr>;
                   (e, w5) = err er w4
               in ((payload, e), w5)))"

section \<open>Operation methods\<close>

text \<open>
  The variadic \<^verbatim>\<open>options ...*Options\<close> is a list of bundles, of which the methods read
  the first; asset and bundle pointers are taken to be non-nil. Every method returns its
  \<^verbatim>\<open>error\<close> with the world it leaves.
\<close>

text \<open>\<^verbatim>\<open>FundAccount\<close>, lines 260 to 281.\<close>

definition FundAccount ::
  "Collaborators \<Rightarrow> string \<Rightarrow> string \<Rightarrow> string \<Rightarrow> Options list \<Rightarrow> world \<Rightarrow> error option \<times> world" where
  "FundAccount E sourceSeed addressOrSeed amount optionsV w =
     (if \<not> ValidAddressOrSeed E sourceSeed
      then errorf ''invalid source address or seed: %s'' [sourceSeed] w
      else if \<not> ValidAddressOrSeed E addressOrSeed
      then errorf ''invalid target address or seed: %s'' [addressOrSeed] w
      else
        let payment = CreateAccount addressOrSeed amount;
            (t, w1) = getTx w;
            w2 = (if length optionsV > 0 then SetOptions t (optionsV ! 0) w1 else w1);
            w3 = Build t (sourceAccount sourceSeed) payment w2
        in signAndSubmit E t [sourceSeed] w3)"

text \<open>
  Modelled from the spec: \<^verbatim>\<open>FindPaths\<close> is a method of the handle declared outside
  \<^verbatim>\<open>microstellar.go\<close>. It asks the path resolver of section 6,
  \<^verbatim>\<open>findPaths(sourceAddress, destAddress, destAsset, destAmount, sendAsset, maxSend)\<close>,
  "a read-only side query" that leaves every builder as it is.
\<close>

definition FindPaths ::
  "Collaborators \<Rightarrow> string \<Rightarrow> string \<Rightarrow> Asset \<Rightarrow> string \<Rightarrow> Options list \<Rightarrow> world
     \<Rightarrow> (error + Path list) \<times> world" where
  "FindPaths E sourceAddr targetAddress asset amount optionsV w =
     (let opts = mergeOptions optionsV;
          q = \<lparr>q_sourceAddress = sourceAddr, q_targetAddress = targetAddress,
               q_asset = asset, q_amount = amount, q_sendAsset = sendAsset opts,
               q_maxAmount = maxAmount opts\<rparr>
      in (findPaths E q, w\<lparr>pathQueries := pathQueries w @ [q]\<rparr>))"

text \<open>
  \<^verbatim>\<open>Pay\<close>, lines 353 to 420. The value \<open>r\<close> is what lines 379 to 416 leave: an early
  return, or the mutators of the payment. The two \<^verbatim>\<open>range\<close> loops fold \<^verbatim>\<open>Through\<close>
  over the hops, first to last.
\<close>

definition Pay ::
  "Collaborators \<Rightarrow> string \<Rightarrow> string \<Rightarrow> string \<Rightarrow> Asset \<Rightarrow> Options list \<Rightarrow> world
     \<Rightarrow> error option \<times> world" where
  "Pay E sourceAddressOrSeed targetAddress amount asset optionsV w =
     (case Validate E asset of
        Some e \<Rightarrow> wrapf e ''can't pay'' [] w
      | None \<Rightarrow>
          if \<not> ValidAddressOrSeed E sourceAddressOrSeed
          then errorf ''can't pay: invalid source address or seed: %s'' [sourceAddressOrSeed] w
          else if \<not> ValidAddressOrSeed E targetAddress
          then errorf ''can't pay: invalid address: %v'' [targetAddress] w
          else
            let paymentMuts =
                  [Destination targetAddress] @
                  (if IsNative asset then [NativeAmount amount]
                   else [CreditAmount (Code asset) (Issuer asset) amount]);
                (t, w1) = getTx w;
                r = (if length optionsV > 0
                     then
                       let opts = optionsV ! 0;
                           w2 = SetOptions t opts w1
                       in (case sendAsset opts of
                             None \<Rightarrow> Inr (paymentMuts, w2)
                           | Some sendA \<Rightarrow>
                               let payPath = PayWith sendA (maxAmount opts)
                               in if length (path opts) > 0
                                  then Inr (paymentMuts @ [PayPath (foldl Through payPath (path opts))], w2)
                                  else
                                    (case ValidAddress E (sourceAddress opts) of
                                       Some e \<Rightarrow>
                                         Inl (wrapf e ''not a valid source address: %s''
                                                [sourceAddress opts] w2)
                                     | None \<Rightarrow>
                                         let (found, w3) =
                                               FindPaths E (sourceAddress opts) targetAddress asset amount
                                                 [WithAsset sendA (maxAmount opts) Opts] w2
                                         in (case found of
                                               Inl e \<Rightarrow> Inl (wrapf e ''path finding error'' [] w3)
                                             | Inr paths \<Rightarrow>
                                                 if length paths < 1
                                                 then Inl (errorf ''no paths found from %s to %s''
                                                             [Code sendA, Code asset] w3)
                                                 else Inr (paymentMuts @
                                                             [PayPath (foldl Through payPath (Hops (paths ! 0)))],
                                                           w3))))
                     else Inr (paymentMuts, w1))
            in (case r of
                  Inl returned \<Rightarrow> returned
                | Inr (muts, w4) \<Rightarrow>
                    signAndSubmit E t [sourceAddressOrSeed]
                      (Build t (sourceAccount sourceAddressOrSeed) (Payment muts) w4)))"

text \<open>\<^verbatim>\<open>PayNative\<close>, lines 328 to 330.\<close>

definition PayNative ::
  "Collaborators \<Rightarrow> string \<Rightarrow> string \<Rightarrow> string \<Rightarrow> Options list \<Rightarrow> world \<Rightarrow> error option \<times> world" where
  "PayNative E sourceSeed targetAddress amount optionsV w =
     Pay E sourceSeed targetAddress amount NativeAsset optionsV w"

text \<open>\<^verbatim>\<open>CreateTrustLine\<close>, lines 424 to 446.\<close>

definition CreateTrustLine ::
  "Collaborators \<Rightarrow> string \<Rightarrow> Asset \<Rightarrow> string \<Rightarrow> Options list \<Rightarrow> world \<Rightarrow> error option \<times> world" where
  "CreateTrustLine E sourceSeed asset limit optionsV w =
     (if \<not> ValidAddressOrSeed E sourceSeed
      then errorf ''can't create trust line: invalid source address or seed: %s'' [sourceSeed] w
      else
        (case Validate E asset of
           Some e \<Rightarrow> wrapf e ''can't create trust line'' [] w
         | None \<Rightarrow>
             let (t, w1) = getTx w;
                 w2 = (if length optionsV > 0 then SetOptions t (optionsV ! 0) w1 else w1);
                 w3 = (if limit = []
                       then Build t (sourceAccount sourceSeed) (Trust (Code asset) (Issuer asset) None) w2
                       else Build t (sourceAccount sourceSeed)
                              (Trust (Code asset) (Issuer asset) (Some limit)) w2)
             in signAndSubmit E t [sourceSeed] w3))"

text \<open>\<^verbatim>\<open>RemoveTrustLine\<close>, lines 449 to 466.\<close>

definition RemoveTrustLine ::
  "Collaborators \<Rightarrow> string \<Rightarrow> Asset \<Rightarrow> Options list \<Rightarrow> world \<Rightarrow> error option \<times> world" where
  "RemoveTrustLine E sourceSeed asset optionsV w =
     (if \<not> ValidAddressOrSeed E sourceSeed
      then errorf ''can't remove trust line: invalid source address or seed: %s'' [sourceSeed] w
      else
        (case Validate E asset of
           Some e \<Rightarrow> wrapf e ''can't remove trust line'' [] w
         | None \<Rightarrow>
             let (t, w1) = getTx w;
                 w2 = (if length optionsV > 0 then SetOptions t (optionsV ! 0) w1 else w1);
                 w3 = Build t (sourceAccount sourceSeed) (RemoveTrust (Code asset) (Issuer asset)) w2
             in signAndSubmit E t [sourceSeed] w3))"

text \<open>\<^verbatim>\<open>AllowTrust\<close>, lines 471 to 492.\<close>

definition AllowTrust ::
  "Collaborators \<Rightarrow> string \<Rightarrow> string \<Rightarrow> string \<Rightarrow> bool \<Rightarrow> Options list \<Rightarrow> world
     \<Rightarrow> error option \<times> world" where
  "AllowTrust E sourceSeed address assetCode authorized optionsV w =
     (if \<not> ValidAddressOrSeed E sourceSeed
      then errorf ''can't authorize trust line: invalid source address or seed: %s'' [sourceSeed] w
      else
        (case ValidAddress E address of
           Some e \<Rightarrow> errorf ''can't authorize trust line: invalid account address: %s'' [address] w
         | None \<Rightarrow>
             let (t, w1) = getTx w;
                 w2 = (if length optionsV > 0 then SetOptions t (optionsV ! 0) w1 else w1);
                 w3 = Build t (sourceAccount sourceSeed) (AllowTrustOp address assetCode authorized) w2
             in signAndSubmit E t [sourceSeed] w3))"

text \<open>\<^verbatim>\<open>SetMasterWeight\<close>, lines 495 to 508.\<close>

definition SetMasterWeight ::
  "Collaborators \<Rightarrow> string \<Rightarrow> 32 word \<Rightarrow> Options list \<Rightarrow> world \<Rightarrow> error option \<times> world" where
  "SetMasterWeight E sourceSeed weight optionsV w =
     (if \<not> ValidAddressOrSeed E sourceSeed
      then errorf ''can't set master weight: invalid source address or seed: %s'' [sourceSeed] w
      else
        let (t, w1) = getTx w;
            w2 = (if length optionsV > 0 then SetOptions t (optionsV ! 0) w1 else w1);
            w3 = Build t (sourceAccount sourceSeed) (MasterWeight weight) w2
        in signAndSubmit E t [sourceSeed] w3)"

text \<open>
  \<^verbatim>\<open>SetFlags\<close> and \<^verbatim>\<open>ClearFlags\<close>, lines 531 to 560; \<^verbatim>\<open>AccountFlags\<close> is an
  \<^verbatim>\<open>int32\<close>.
\<close>

definition SetFlags ::
  "Collaborators \<Rightarrow> string \<Rightarrow> 32 word \<Rightarrow> Options list \<Rightarrow> world \<Rightarrow> error option \<times> world" where
  "SetFlags E sourceSeed flags optionsV w =
     (if \<not> ValidAddressOrSeed E sourceSeed
      then errorf ''can't set flags: invalid source address or seed: %s'' [sourceSeed] w
      else
        let (t, w1) = getTx w;
            w2 = (if length optionsV > 0 then SetOptions t (optionsV ! 0) w1 else w1);
            w3 = Build t (sourceAccount sourceSeed) (SetFlag flags) w2
        in signAndSubmit E t [sourceSeed] w3)"

definition ClearFlags ::
  "Collaborators \<Rightarrow> string \<Rightarrow> 32 word \<Rightarrow> Options list \<Rightarrow> world \<Rightarrow> error option \<times> world" where
  "ClearFlags E sourceSeed flags optionsV w =
     (if \<not> ValidAddressOrSeed E sourceSeed
      then errorf ''can't clear flags: invalid source address or seed: %s'' [sourceSeed] w
      else
        let (t, w1) = getTx w;
            w2 = (if length optionsV > 0 then SetOptions t (optionsV ! 0) w1 else w1);
            w3 = Build t (sourceAccount sourceSeed) (ClearFlag flags) w2
        in signAndSubmit E t [sourceSeed] w3)"

text \<open>\<^verbatim>\<open>SetHomeDomain\<close>, lines 563 to 576.\<close>

definition SetHomeDomain ::
  "Collaborators \<Rightarrow> string \<Rightarrow> string \<Rightarrow> Options list \<Rightarrow> world \<Rightarrow> error option \<times> world" where
  "SetHomeDomain E sourceSeed domain optionsV w =
     (if \<not> ValidAddressOrSeed E sourceSeed
      then errorf ''can't set home domain: invalid source address or seed: %s'' [sourceSeed] w
      else
        let (t, w1) = getTx w;
            w2 = (if length optionsV > 0 then SetOptions t (optionsV ! 0) w1 else w1);
            w3 = Build t (sourceAccount sourceSeed) (HomeDomain domain) w2
        in signAndSubmit E t [sourceSeed] w3)"

text \<open>\<^verbatim>\<open>AddSigner\<close> and \<^verbatim>\<open>RemoveSigner\<close>, lines 579 to 616.\<close>

definition AddSigner ::
  "Collaborators \<Rightarrow> string \<Rightarrow> string \<Rightarrow> 32 word \<Rightarrow> Options list \<Rightarrow> world \<Rightarrow> error option \<times> world" where
  "AddSigner E sourceSeed signerAddress signerWeight optionsV w =
     (if \<not> ValidAddressOrSeed E sourceSeed
      then errorf ''can't add signer: invalid source address or seed: %s'' [sourceSeed] w
      else if \<not> ValidAddressOrSeed E signerAddress
      then errorf ''can't add signer: invalid signer address or seed: %s'' [signerAddress] w
      else
        let (t, w1) = getTx w;
            w2 = (if length optionsV > 0 then SetOptions t (optionsV ! 0) w1 else w1);
            w3 = Build t (sourceAccount sourceSeed) (AddSignerOp signerAddress signerWeight) w2
        in signAndSubmit E t [sourceSeed] w3)"

definition RemoveSigner ::
  "Collaborators \<Rightarrow> string \<Rightarrow> string \<Rightarrow> Options list \<Rightarrow> world \<Rightarrow> error option \<times> world" where
  "RemoveSigner E sourceSeed signerAddress optionsV w =
     (if \<not> ValidAddressOrSeed E sourceSeed
      then errorf ''can't remove signer: invalid source address or seed: %s'' [sourceSeed] w
      else if \<not> ValidAddressOrSeed E signerAddress
      then errorf ''can't remove signer: invalid signer address or seed: %s'' [signerAddress] w
      else
        let (t, w1) = getTx w;
            w2 = (if length optionsV > 0 then SetOptions t (optionsV ! 0) w1 else w1);
            w3 = Build t (sourceAccount sourceSeed) (RemoveSignerOp signerAddress) w2
        in signAndSubmit E t [sourceSeed] w3)"

text \<open>\<^verbatim>\<open>SetThresholds\<close>, lines 619 to 632.\<close>

definition SetThresholds ::
  "Collaborators \<Rightarrow> string \<Rightarrow> 32 word \<Rightarrow> 32 word \<Rightarrow> 32 word \<Rightarrow> Options list \<Rightarrow> world
     \<Rightarrow> error option \<times> world" where
  "SetThresholds E sourceSeed low medium high optionsV w =
     (if \<not> ValidAddressOrSeed E sourceSeed
      then errorf ''can't set thresholds: invalid source address or seed: %s'' [sourceSeed] w
      else
        let (t, w1) = getTx w;
            w2 = (if length optionsV > 0 then SetOptions t (optionsV ! 0) w1 else w1);
            w3 = Build t (sourceAccount sourceSeed) (SetThresholdsOp low medium high) w2
        in signAndSubmit E t [sourceSeed] w3)"

text \<open>
  \<^verbatim>\<open>SetData\<close>, lines 636 to 661. \<^verbatim>\<open>len\<close> counts bytes, as \<open>length\<close> does on a
  \<open>string\<close>; the value is a byte slice.
\<close>

definition SetData ::
  "Collaborators \<Rightarrow> string \<Rightarrow> string \<Rightarrow> string \<Rightarrow> Options list \<Rightarrow> world \<Rightarrow> error option \<times> world" where
  "SetData E sourceSeed key val optionsV w =
     (if \<not> ValidAddressOrSeed E sourceSeed
      then errorf ''can't set thresholds: invalid source address or seed: %s'' [sourceSeed] w
      else
        let (t, w1) = getTx w;
            w2 = (if length optionsV > 0 then SetOptions t (optionsV ! 0) w1 else w1)
        in if key = []
           then errorf ''data key must not be empty'' [] w2
           else if length key > 64
           then errorf ''data key must be under 64 bytes: %s'' [key] w2
           else if length val > 64
           then errorf ''data value must be under 64 bytes: %s'' [val] w2
           else
             let w3 = Build t (sourceAccount sourceSeed) (SetDataOp key val) w2
             in signAndSubmit E t [sourceSeed] w3)"

text \<open>\<^verbatim>\<open>ClearData\<close>, lines 664 to 681.\<close>

definition ClearData ::
  "Collaborators \<Rightarrow> string \<Rightarrow> string \<Rightarrow> Options list \<Rightarrow> world \<Rightarrow> error option \<times> world" where
  "ClearData E sourceSeed key optionsV w =
     (if \<not> ValidAddressOrSeed E sourceSeed
      then errorf ''can't set thresholds: invalid source address or seed: %s'' [sourceSeed] w
      else
        let (t, w1) = getTx w;
            w2 = (if length optionsV > 0 then SetOptions t (optionsV ! 0) w1 else w1)
        in if length key > 64
           then errorf ''data key must be under 64 bytes: %s'' [key] w2
           else
             let w3 = Build t (sourceAccount sourceSeed) (ClearDataOp key) w2
             in signAndSubmit E t [sourceSeed] w3)"

section \<open>Calls of operation methods\<close>

text \<open>
  One value per call of an operation method that takes a source identifier and an options
  bundle, so that a property of every such method is one statement, and a session is a
  list of calls.
\<close>

datatype call =
    CallFundAccount string string string "Options list"
  | CallPayNative string string string "Options list"
  | CallPay string string string Asset "Options list"
  | CallCreateTrustLine string Asset string "Options list"
  | CallRemoveTrustLine string Asset "Options list"
  | CallAllowTrust string string string bool "Options list"
  | CallSetMasterWeight string "32 word" "Options list"
  | CallSetFlags string "32 word" "Options list"
  | CallClearFlags string "32 word" "Options list"
  | CallSetHomeDomain string string "Options list"
  | CallAddSigner string string "32 word" "Options list"
  | CallRemoveSigner string string "Options list"
  | CallSetThresholds string "32 word" "32 word" "32 word" "Options list"
  | CallSetData string string string "Options list"
  | CallClearData string string "Options list"

fun invoke :: "Collaborators \<Rightarrow> call \<Rightarrow> world \<Rightarrow> error option \<times> world" where
  "invoke E (CallFundAccount s a m os) w = FundAccount E s a m os w"
| "invoke E (CallPayNative s a m os) w = PayNative E s a m os w"
| "invoke E (CallPay s a m asset os) w = Pay E s a m asset os w"
| "invoke E (CallCreateTrustLine s asset l os) w = CreateTrustLine E s asset l os w"
| "invoke E (CallRemoveTrustLine s asset os) w = RemoveTrustLine E s asset os w"
| "invoke E (CallAllowTrust s a c b os) w = AllowTrust E s a c b os w"
| "invoke E (CallSetMasterWeight s n os) w = SetMasterWeight E s n os w"
| "invoke E (CallSetFlags s f os) w = SetFlags E s f os w"
| "invoke E (CallClearFlags s f os) w = ClearFlags E s f os w"
| "invoke E (CallSetHomeDomain s d os) w = SetHomeDomain E s d os w"
| "invoke E (CallAddSigner s a n os) w = AddSigner E s a n os w"
| "invoke E (CallRemoveSigner s a os) w = RemoveSigner E s a os w"
| "invoke E (CallSetThresholds s l m h os) w = SetThresholds E s l m h os w"
| "invoke E (CallSetData s k v os) w = SetData E s k v os w"
| "invoke E (CallClearData s k os) w = ClearData E s k os w"

text \<open>The source identifier and the bundles of a call.\<close>

fun sourceOf :: "call \<Rightarrow> string" where
  "sourceOf (CallFundAccount s a m os) = s"
| "sourceOf (CallPayNative s a m os) = s"
| "sourceOf (CallPay s a m asset os) = s"
| "sourceOf (CallCreateTrustLine s asset l os) = s"
| "sourceOf (CallRemoveTrustLine s asset os) = s"
| "sourceOf (CallAllowTrust s a c b os) = s"
| "sourceOf (CallSetMasterWeight s n os) = s"
| "sourceOf (CallSetFlags s f os) = s"
| "sourceOf (CallClearFlags s f os) = s"
| "sourceOf (CallSetHomeDomain s d os) = s"
| "sourceOf (CallAddSigner s a n os) = s"
| "sourceOf (CallRemoveSigner s a os) = s"
| "sourceOf (CallSetThresholds s l m h os) = s"
| "sourceOf (CallSetData s k v os) = s"
| "sourceOf (CallClearData s k os) = s"

fun bundlesOf :: "call \<Rightarrow> Options list" where
  "bundlesOf (CallFundAccount s a m os) = os"
| "bundlesOf (CallPayNative s a m os) = os"
| "bundlesOf (CallPay s a m asset os) = os"
| "bundlesOf (CallCreateTrustLine s asset l os) = os"
| "bundlesOf (CallRemoveTrustLine s asset os) = os"
| "bundlesOf (CallAllowTrust s a c b os) = os"
| "bundlesOf (CallSetMasterWeight s n os) = os"
| "bundlesOf (CallSetFlags s f os) = os"
| "bundlesOf (CallClearFlags s f os) = os"
| "bundlesOf (CallSetHomeDomain s d os) = os"
| "bundlesOf (CallAddSigner s a n os) = os"
| "bundlesOf (CallRemoveSigner s a os) = os"
| "bundlesOf (CallSetThresholds s l m h os) = os"
| "bundlesOf (CallSetData s k v os) = os"
| "bundlesOf (CallClearData s k os) = os"


section \<open>What every operation method has in common\<close>

text \<open>
  The operation methods share their middle and their end: \<^verbatim>\<open>tx := ms.getTx()\<close>, then
  \<^verbatim>\<open>tx.SetOptions(options[0])\<close> when a bundle is given, and at last \<^verbatim>\<open>tx.Build\<close>
  followed by \<^verbatim>\<open>ms.signAndSubmit\<close>. The definitions of this section name these parts,
  so that each method can be shown equal to its validation followed by them.
\<close>

definition prepared :: "Options list \<Rightarrow> world \<Rightarrow> addr \<times> world" where
  "prepared os w =
     (let (t, w1) = getTx w
      in (t, case os of [] \<Rightarrow> w1 | first # rest \<Rightarrow> SetOptions t first w1))"

text \<open>The world after the path resolver has received the queries \<open>qs\<close>.\<close>

definition asked :: "PathQuery list \<Rightarrow> world \<Rightarrow> world" where
  "asked qs w = w\<lparr>pathQueries := pathQueries w @ qs\<rparr>"

text \<open>The end of a method that passed its validation: one operation built, then signAndSubmit.\<close>

definition built ::
  "Collaborators \<Rightarrow> string \<Rightarrow> Options list \<Rightarrow> world \<Rightarrow> Operation \<Rightarrow> PathQuery list \<Rightarrow> error option \<times> world" where
  "built E src os w operation qs =
     (let (t, w2) = prepared os w
      in signAndSubmit E t [src] (Build t src operation (asked qs w2)))"

text \<open>
  The worlds in which a method may return early: the one it was called in, or the one after
  \<^verbatim>\<open>getTx\<close>, \<^verbatim>\<open>SetOptions\<close> and possibly a query to the path resolver.
\<close>

definition early :: "Options list \<Rightarrow> world \<Rightarrow> world \<Rightarrow> bool" where
  "early os w w0 = (w0 = w \<or> (\<exists>qs. w0 = asked qs (snd (prepared os w))))"

text \<open>An early return with an error.\<close>

definition refused :: "Options list \<Rightarrow> world \<Rightarrow> error option \<times> world \<Rightarrow> bool" where
  "refused os w rw = (\<exists>e w0. early os w w0 \<and> rw = err (Some e) w0)"

text \<open>A result is an early return with an error, or the end above.\<close>

definition shaped ::
  "Collaborators \<Rightarrow> string \<Rightarrow> Options list \<Rightarrow> world \<Rightarrow> error option \<times> world \<Rightarrow> bool" where
  "shaped E src os w rw =
     ((\<exists>e w0. early os w w0 \<and> rw = err (Some e) w0)
      \<or> (\<exists>operation qs. rw = built E src os w operation qs))"

text \<open>The mutators of a payment before any path, lines 366 to 375 of \<^verbatim>\<open>Pay\<close>.\<close>

definition paymentMutators :: "string \<Rightarrow> string \<Rightarrow> Asset \<Rightarrow> PaymentMutator list" where
  "paymentMutators target amount asset =
     [Destination target,
      if IsNative asset then NativeAmount amount else CreditAmount (Code asset) (Issuer asset) amount]"

text \<open>The query \<^verbatim>\<open>Pay\<close> sends to the path resolver, line 399.\<close>

definition queryOf :: "Options \<Rightarrow> string \<Rightarrow> Asset \<Rightarrow> string \<Rightarrow> PathQuery" where
  "queryOf opts target asset amount =
     \<lparr>q_sourceAddress = sourceAddress opts, q_targetAddress = target, q_asset = asset,
      q_amount = amount, q_sendAsset = sendAsset opts, q_maxAmount = maxAmount opts\<rparr>"

section \<open>The tests of each method and the operation it builds\<close>

text \<open>
  Before its \<^verbatim>\<open>tx.Build\<close> a method tests its arguments, and returns an error when
  a test fails. This section reads these tests, and the operation handed to
  \<^verbatim>\<open>tx.Build\<close>, off the source, method by method.

  For a bundle with a send asset, lines 384 to 414 of \<^verbatim>\<open>Pay\<close> settle the conversion
  path: the hop list of the bundle when it has one; otherwise the hops of the first
  candidate of the path resolver. There is none when the search address is refused
  (line 395), the resolver fails (line 400) or it returns no candidate (line 404):
  \<^verbatim>\<open>Pay\<close> returns there.
\<close>

definition conversionPath ::
  "Collaborators \<Rightarrow> string \<Rightarrow> string \<Rightarrow> Asset \<Rightarrow> Options \<Rightarrow> Asset list option" where
  "conversionPath E target amount asset opts =
     (if path opts \<noteq> [] then Some (path opts)
      else (case ValidAddress E (sourceAddress opts) of
              Some e \<Rightarrow> None
            | None \<Rightarrow>
                (case findPaths E (queryOf opts target asset amount) of
                   Inl e \<Rightarrow> None
                 | Inr paths \<Rightarrow> (case paths of [] \<Rightarrow> None | p # ps \<Rightarrow> Some (Hops p)))))"

text \<open>
  \<^verbatim>\<open>Pay\<close> reaches \<^verbatim>\<open>tx.Build\<close> when the asset (line 354), the source (line 358)
  and the target (line 362) pass and, for a bundle with a send asset, a conversion path
  was settled.
\<close>

definition validPayment ::
  "Collaborators \<Rightarrow> string \<Rightarrow> string \<Rightarrow> string \<Rightarrow> Asset \<Rightarrow> Options list \<Rightarrow> bool" where
  "validPayment E src target amount asset os =
     (Validate E asset = None \<and> ValidAddressOrSeed E src \<and> ValidAddressOrSeed E target
      \<and> (case os of
            [] \<Rightarrow> True
          | opts # rest \<Rightarrow>
              (case sendAsset opts of
                 None \<Rightarrow> True
               | Some sendA \<Rightarrow> conversionPath E target amount asset opts \<noteq> None)))"

text \<open>The payment it builds then, line 418.\<close>

definition paymentOf ::
  "Collaborators \<Rightarrow> string \<Rightarrow> string \<Rightarrow> Asset \<Rightarrow> Options list \<Rightarrow> Operation" where
  "paymentOf E target amount asset os =
     Payment (paymentMutators target amount asset @
       (case os of
          [] \<Rightarrow> []
        | opts # rest \<Rightarrow>
            (case sendAsset opts of
               None \<Rightarrow> []
             | Some sendA \<Rightarrow>
                 [PayPath (PayWithPath sendA (maxAmount opts)
                    (case conversionPath E target amount asset opts of
                       None \<Rightarrow> []
                     | Some hops \<Rightarrow> hops))])))"

text \<open>
  The tests of each method. Every method tests its source identifier. There is a second
  address in \<^verbatim>\<open>FundAccount\<close> (line 265), \<^verbatim>\<open>AllowTrust\<close> (line 476),
  \<^verbatim>\<open>AddSigner\<close> (line 584) and \<^verbatim>\<open>RemoveSigner\<close> (line 604), an asset in
  \<^verbatim>\<open>CreateTrustLine\<close> (line 429) and \<^verbatim>\<open>RemoveTrustLine\<close> (line 454), a key and
  a value in \<^verbatim>\<open>SetData\<close> (lines 647 to 657) and a key in \<^verbatim>\<open>ClearData\<close>
  (line 675). \<^verbatim>\<open>PayNative\<close> is \<^verbatim>\<open>Pay\<close> of the native asset.
\<close>

fun validArguments :: "Collaborators \<Rightarrow> call \<Rightarrow> bool" where
  "validArguments E (CallFundAccount s a m os) = (ValidAddressOrSeed E s \<and> ValidAddressOrSeed E a)"
| "validArguments E (CallPayNative s a m os) = validPayment E s a m NativeAsset os"
| "validArguments E (CallPay s a m asset os) = validPayment E s a m asset os"
| "validArguments E (CallCreateTrustLine s asset l os) =
     (ValidAddressOrSeed E s \<and> Validate E asset = None)"
| "validArguments E (CallRemoveTrustLine s asset os) =
     (ValidAddressOrSeed E s \<and> Validate E asset = None)"
| "validArguments E (CallAllowTrust s a c b os) = (ValidAddressOrSeed E s \<and> ValidAddress E a = None)"
| "validArguments E (CallSetMasterWeight s n os) = ValidAddressOrSeed E s"
| "validArguments E (CallSetFlags s f os) = ValidAddressOrSeed E s"
| "validArguments E (CallClearFlags s f os) = ValidAddressOrSeed E s"
| "validArguments E (CallSetHomeDomain s d os) = ValidAddressOrSeed E s"
| "validArguments E (CallAddSigner s a n os) = (ValidAddressOrSeed E s \<and> ValidAddressOrSeed E a)"
| "validArguments E (CallRemoveSigner s a os) = (ValidAddressOrSeed E s \<and> ValidAddressOrSeed E a)"
| "validArguments E (CallSetThresholds s l m h os) = ValidAddressOrSeed E s"
| "validArguments E (CallSetData s k v os) =
     (ValidAddressOrSeed E s \<and> k \<noteq> [] \<and> length k \<le> 64 \<and> length v \<le> 64)"
| "validArguments E (CallClearData s k os) = (ValidAddressOrSeed E s \<and> length k \<le> 64)"

text \<open>The operation each method hands to \<^verbatim>\<open>tx.Build\<close>.\<close>

fun operationOf :: "Collaborators \<Rightarrow> call \<Rightarrow> Operation" where
  "operationOf E (CallFundAccount s a m os) = CreateAccount a m"
| "operationOf E (CallPayNative s a m os) = paymentOf E a m NativeAsset os"
| "operationOf E (CallPay s a m asset os) = paymentOf E a m asset os"
| "operationOf E (CallCreateTrustLine s asset l os) =
     Trust (Code asset) (Issuer asset) (if l = [] then None else Some l)"
| "operationOf E (CallRemoveTrustLine s asset os) = RemoveTrust (Code asset) (Issuer asset)"
| "operationOf E (CallAllowTrust s a c b os) = AllowTrustOp a c b"
| "operationOf E (CallSetMasterWeight s n os) = MasterWeight n"
| "operationOf E (CallSetFlags s f os) = SetFlag f"
| "operationOf E (CallClearFlags s f os) = ClearFlag f"
| "operationOf E (CallSetHomeDomain s d os) = HomeDomain d"
| "operationOf E (CallAddSigner s a n os) = AddSignerOp a n"
| "operationOf E (CallRemoveSigner s a os) = RemoveSignerOp a"
| "operationOf E (CallSetThresholds s l m h os) = SetThresholdsOp l m h"
| "operationOf E (CallSetData s k v os) = SetDataOp k v"
| "operationOf E (CallClearData s k os) = ClearDataOp k"

text \<open>What a method sends for its own single-operation transaction, and who signs it.\<close>

definition ownEnvelope :: "world \<Rightarrow> string \<Rightarrow> Options list \<Rightarrow> Operation \<Rightarrow> string list \<Rightarrow> Envelope" where
  "ownEnvelope w src os operation sigs =
     \<lparr>env_network = networkName (ms w), env_ops = [(src, operation)],
      env_options = (case os of [] \<Rightarrow> None | first # rest \<Rightarrow> Some first),
      env_signatures = sigs\<rparr>"

definition ownSigners :: "string \<Rightarrow> Options list \<Rightarrow> string list" where
  "ownSigners src os =
     (if signerSeeds (mergeOptions os) = [] then [src] else signerSeeds (mergeOptions os))"

section \<open>A simulated network and some scenarios\<close>

text \<open>
  Collaborators to run the model on: seeds start with S and addresses with G, as the
  package comment says; only a seed can sign; the network accepts every envelope; the path
  resolver answers with a fixed list of candidates.
\<close>

definition seedLike :: "string \<Rightarrow> bool" where
  "seedLike s = (case s of [] \<Rightarrow> False | c # cs \<Rightarrow> c = CHR ''S'')"

definition addressLike :: "string \<Rightarrow> bool" where
  "addressLike s = (case s of [] \<Rightarrow> False | c # cs \<Rightarrow> c = CHR ''G'')"

definition simulated :: "Path list \<Rightarrow> Collaborators" where
  "simulated paths =
     \<lparr>ValidAddressOrSeed = (\<lambda>s. seedLike s \<or> addressLike s),
      ValidAddress = (\<lambda>s. if addressLike s then None else Some (Collaborator ''invalid address'')),
      Validate = (\<lambda>a. if Code a = [] then Some (Collaborator ''invalid asset'') else None),
      sign = (\<lambda>k. if seedLike k then Inr (''signed by '' @ k) else Inl (Collaborator ''not a seed'')),
      submitEnvelope = (\<lambda>log e. Inr \<lparr>Ledger = length log, Hash = ''ok''\<rparr>),
      findPaths = (\<lambda>q. Inr paths),
      encode = (\<lambda>e. Inr ''payload'')\<rparr>"

text \<open>
  A handle that has done nothing, two assets, a list of calls and the worlds of a few call
  sequences.
\<close>

definition idle :: world where
  "idle = fresh (New ''fake'' [])"

definition USD :: Asset where
  "USD = \<lparr>Code = ''USD'', Issuer = ''GISSUER'', Type = Credit4Type\<rparr>"

definition INR :: Asset where
  "INR = \<lparr>Code = ''INR'', Issuer = ''GISSUER'', Type = Credit4Type\<rparr>"

definition fourCalls :: "call list" where
  "fourCalls =
     [CallSetHomeDomain ''SALICE'' ''qubit.sh'' [],
      CallSetData ''SALICE'' [] ''v'' [],
      CallSetThresholds ''SALICE'' 1 2 3 [],
      CallPayNative ''SALICE'' ''GBOB'' ''10'' []]"

definition openSession :: world where
  "openSession = snd (SetHomeDomain (simulated []) ''SALICE'' ''qubit.sh'' [] (Start ''SALICE'' [] idle))"

definition failedCall :: world where
  "failedCall = snd (SetHomeDomain (simulated []) ''nobody'' ''qubit.sh'' [] idle)"

text \<open>
  Bundles: \<^verbatim>\<open>Opts().WithSigner("SSIGNER")\<close>, \<^verbatim>\<open>Opts().WithAsset(XLM, "20").FindPathFrom("GALICE")\<close>,
  \<^verbatim>\<open>Opts().WithAsset(XLM, "20").Through(USD)\<close> and \<^verbatim>\<open>Opts().WithMemoText("late")\<close>.
\<close>

definition signedBy :: Options where
  "signedBy = Opts\<lparr>signerSeeds := [''SSIGNER'']\<rparr>"

definition searchFrom :: Options where
  "searchFrom = Opts\<lparr>sendAsset := Some NativeAsset, maxAmount := ''20'', sourceAddress := ''GALICE''\<rparr>"

definition throughUSD :: Options where
  "throughUSD = Opts\<lparr>sendAsset := Some NativeAsset, maxAmount := ''20'', path := [USD]\<rparr>"

definition withMemo :: Options where
  "withMemo = Opts\<lparr>memo := MemoText ''late''\<rparr>"

definition viaUSD :: Path where
  "viaUSD = \<lparr>Hops = [USD], SendAmount = ''12'', DestAmount = ''2000''\<rparr>"

section \<open>Each method is its validation followed by the common end\<close>

lemma asked_Nil [simp]: "asked [] w = w"
  by (simp add: asked_def)

lemma foldl_Through: "foldl Through (PayWithPath a m hs) xs = PayWithPath a m (hs @ xs)"
  by (induction xs arbitrary: hs) simp_all

lemmas tail_defs = built_def prepared_def sourceAccount_def Let_def

lemma nf_FundAccount:
  "FundAccount E s a m os w =
     (if \<not> ValidAddressOrSeed E s
      then errorf ''invalid source address or seed: %s'' [s] w
      else if \<not> ValidAddressOrSeed E a
      then errorf ''invalid target address or seed: %s'' [a] w
      else built E s os w (CreateAccount a m) [])"
  by (cases os) (simp_all add: FundAccount_def tail_defs split: prod.splits)

lemma nf_Pay:
  "Pay E s a m asset os w =
     (case Validate E asset of
        Some e \<Rightarrow> wrapf e ''can't pay'' [] w
      | None \<Rightarrow>
          if \<not> ValidAddressOrSeed E s
          then errorf ''can't pay: invalid source address or seed: %s'' [s] w
          else if \<not> ValidAddressOrSeed E a
          then errorf ''can't pay: invalid address: %v'' [a] w
          else
            (case os of
               [] \<Rightarrow> built E s os w (Payment (paymentMutators a m asset)) []
             | opts # rest \<Rightarrow>
                 (case sendAsset opts of
                    None \<Rightarrow> built E s os w (Payment (paymentMutators a m asset)) []
                  | Some sendA \<Rightarrow>
                      if path opts \<noteq> []
                      then built E s os w
                             (Payment (paymentMutators a m asset @
                                [PayPath (PayWithPath sendA (maxAmount opts) (path opts))])) []
                      else
                        (case ValidAddress E (sourceAddress opts) of
                           Some e \<Rightarrow>
                             wrapf e ''not a valid source address: %s'' [sourceAddress opts]
                               (snd (prepared os w))
                         | None \<Rightarrow>
                             (case findPaths E (queryOf opts a asset m) of
                                Inl e \<Rightarrow>
                                  wrapf e ''path finding error'' []
                                    (asked [queryOf opts a asset m] (snd (prepared os w)))
                              | Inr paths \<Rightarrow>
                                  (case paths of
                                     [] \<Rightarrow>
                                       errorf ''no paths found from %s to %s'' [Code sendA, Code asset]
                                         (asked [queryOf opts a asset m] (snd (prepared os w)))
                                   | p # ps \<Rightarrow>
                                       built E s os w
                                         (Payment (paymentMutators a m asset @
                                            [PayPath (PayWithPath sendA (maxAmount opts) (Hops p))]))
                                         [queryOf opts a asset m]))))))"
  by (cases os)
     (simp_all add: Pay_def tail_defs asked_def paymentMutators_def
        queryOf_def FindPaths_def mergeOptions_def WithAsset_def Opts_def PayWith_def foldl_Through
        split: prod.splits option.splits sum.splits list.splits)

lemma nf_CreateTrustLine:
  "CreateTrustLine E s asset l os w =
     (if \<not> ValidAddressOrSeed E s
      then errorf ''can't create trust line: invalid source address or seed: %s'' [s] w
      else
        (case Validate E asset of
           Some e \<Rightarrow> wrapf e ''can't create trust line'' [] w
         | None \<Rightarrow>
             built E s os w (Trust (Code asset) (Issuer asset) (if l = [] then None else Some l)) []))"
  by (cases os) (simp_all add: CreateTrustLine_def tail_defs split: prod.splits option.splits)

lemma nf_RemoveTrustLine:
  "RemoveTrustLine E s asset os w =
     (if \<not> ValidAddressOrSeed E s
      then errorf ''can't remove trust line: invalid source address or seed: %s'' [s] w
      else
        (case Validate E asset of
           Some e \<Rightarrow> wrapf e ''can't remove trust line'' [] w
         | None \<Rightarrow> built E s os w (RemoveTrust (Code asset) (Issuer asset)) []))"
  by (cases os) (simp_all add: RemoveTrustLine_def tail_defs split: prod.splits option.splits)

lemma nf_AllowTrust:
  "AllowTrust E s a c b os w =
     (if \<not> ValidAddressOrSeed E s
      then errorf ''can't authorize trust line: invalid source address or seed: %s'' [s] w
      else
        (case ValidAddress E a of
           Some e \<Rightarrow> errorf ''can't authorize trust line: invalid account address: %s'' [a] w
         | None \<Rightarrow> built E s os w (AllowTrustOp a c b) []))"
  by (cases os) (simp_all add: AllowTrust_def tail_defs split: prod.splits option.splits)

lemma nf_SetMasterWeight:
  "SetMasterWeight E s n os w =
     (if \<not> ValidAddressOrSeed E s
      then errorf ''can't set master weight: invalid source address or seed: %s'' [s] w
      else built E s os w (MasterWeight n) [])"
  by (cases os) (simp_all add: SetMasterWeight_def tail_defs split: prod.splits)

lemma nf_SetFlags:
  "SetFlags E s f os w =
     (if \<not> ValidAddressOrSeed E s
      then errorf ''can't set flags: invalid source address or seed: %s'' [s] w
      else built E s os w (SetFlag f) [])"
  by (cases os) (simp_all add: SetFlags_def tail_defs split: prod.splits)

lemma nf_ClearFlags:
  "ClearFlags E s f os w =
     (if \<not> ValidAddressOrSeed E s
      then errorf ''can't clear flags: invalid source address or seed: %s'' [s] w
      else built E s os w (ClearFlag f) [])"
  by (cases os) (simp_all add: ClearFlags_def tail_defs split: prod.splits)

lemma nf_SetHomeDomain:
  "SetHomeDomain E s d os w =
     (if \<not> ValidAddressOrSeed E s
      then errorf ''can't set home domain: invalid source address or seed: %s'' [s] w
      else built E s os w (HomeDomain d) [])"
  by (cases os) (simp_all add: SetHomeDomain_def tail_defs split: prod.splits)

lemma nf_AddSigner:
  "AddSigner E s a n os w =
     (if \<not> ValidAddressOrSeed E s
      then errorf ''can't add signer: invalid source address or seed: %s'' [s] w
      else if \<not> ValidAddressOrSeed E a
      then errorf ''can't add signer: invalid signer address or seed: %s'' [a] w
      else built E s os w (AddSignerOp a n) [])"
  by (cases os) (simp_all add: AddSigner_def tail_defs split: prod.splits)

lemma nf_RemoveSigner:
  "RemoveSigner E s a os w =
     (if \<not> ValidAddressOrSeed E s
      then errorf ''can't remove signer: invalid source address or seed: %s'' [s] w
      else if \<not> ValidAddressOrSeed E a
      then errorf ''can't remove signer: invalid signer address or seed: %s'' [a] w
      else built E s os w (RemoveSignerOp a) [])"
  by (cases os) (simp_all add: RemoveSigner_def tail_defs split: prod.splits)

lemma nf_SetThresholds:
  "SetThresholds E s l m h os w =
     (if \<not> ValidAddressOrSeed E s
      then errorf ''can't set thresholds: invalid source address or seed: %s'' [s] w
      else built E s os w (SetThresholdsOp l m h) [])"
  by (cases os) (simp_all add: SetThresholds_def tail_defs split: prod.splits)

lemma nf_SetData:
  "SetData E s k v os w =
     (if \<not> ValidAddressOrSeed E s
      then errorf ''can't set thresholds: invalid source address or seed: %s'' [s] w
      else if k = [] then errorf ''data key must not be empty'' [] (snd (prepared os w))
      else if 64 < length k then errorf ''data key must be under 64 bytes: %s'' [k] (snd (prepared os w))
      else if 64 < length v then errorf ''data value must be under 64 bytes: %s'' [v] (snd (prepared os w))
      else built E s os w (SetDataOp k v) [])"
  by (cases os) (simp_all add: SetData_def tail_defs split: prod.splits)

lemma nf_ClearData:
  "ClearData E s k os w =
     (if \<not> ValidAddressOrSeed E s
      then errorf ''can't set thresholds: invalid source address or seed: %s'' [s] w
      else if 64 < length k then errorf ''data key must be under 64 bytes: %s'' [k] (snd (prepared os w))
      else built E s os w (ClearDataOp k) [])"
  by (cases os) (simp_all add: ClearData_def tail_defs split: prod.splits)

lemmas nf_all = nf_FundAccount nf_Pay nf_CreateTrustLine nf_RemoveTrustLine nf_AllowTrust
  nf_SetMasterWeight nf_SetFlags nf_ClearFlags nf_SetHomeDomain nf_AddSigner nf_RemoveSigner
  nf_SetThresholds nf_SetData nf_ClearData

text \<open>Every result of an operation method has the shape above.\<close>

lemma early_refl: "early os w w"
  by (simp add: early_def)

lemma early_prepared: "early os w (snd (prepared os w))"
  unfolding early_def by (rule disjI2, rule exI [of _ "[]"]) simp

lemma early_asked: "early os w (asked qs (snd (prepared os w)))"
  unfolding early_def by blast

lemma shaped_errorf: "early os w w0 \<Longrightarrow> shaped E src os w (errorf m a w0)"
  unfolding shaped_def by (rule disjI1) (auto simp add: errorf_def err_def)

lemma shaped_wrapf: "early os w w0 \<Longrightarrow> shaped E src os w (wrapf e m a w0)"
  unfolding shaped_def by (rule disjI1) (auto simp add: wrapf_def err_def)

lemma shaped_built: "shaped E src os w (built E src os w operation qs)"
  unfolding shaped_def by blast

lemmas shaped_intros = shaped_errorf shaped_wrapf shaped_built early_refl early_prepared early_asked

lemma shaped_invoke: "shaped E (sourceOf c) (bundlesOf c) w (invoke E c w)"
proof (cases c)
  case (CallPay s a m asset os)
  then show ?thesis
    by (simp add: nf_Pay shaped_intros split: option.splits sum.splits list.splits)
next
  case (CallPayNative s a m os)
  then show ?thesis
    by (simp add: PayNative_def nf_Pay shaped_intros split: option.splits sum.splits list.splits)
qed (simp_all add: nf_all shaped_intros split: option.splits)




lemma valid_Pay:
  assumes "validPayment E s a m asset os"
  shows "\<exists>qs. Pay E s a m asset os w = built E s os w (paymentOf E a m asset os) qs"
  using assms
  by (auto simp add: nf_Pay validPayment_def paymentOf_def conversionPath_def
        split: option.splits sum.splits list.splits if_splits)


lemma valid_invoke:
  assumes "validArguments E c"
  shows "\<exists>qs. invoke E c w = built E (sourceOf c) (bundlesOf c) w (operationOf E c) qs"
proof (cases c)
  case (CallPay s a m asset os)
  with assms valid_Pay [of E s a m asset os w] show ?thesis by simp
next
  case (CallPayNative s a m os)
  with assms valid_Pay [of E s a m NativeAsset os w] show ?thesis by (simp add: PayNative_def)
qed (insert assms, auto simp add: nf_all)


section \<open>Consequences of the shape\<close>


lemma prepared_implicit:
  "tx (ms w) = None \<Longrightarrow>
   prepared os w =
     (nxt w, case os of [] \<Rightarrow> snd (NewTx (networkName (ms w)) (params (ms w)) w)
             | first # rest \<Rightarrow> SetOptions (nxt w) first (snd (NewTx (networkName (ms w)) (params (ms w)) w)))"
  by (simp add: prepared_def getTx_def NewTx_def split: list.splits)





lemma err_lastErr: "err e w = (r, w') \<Longrightarrow> lastErr (ms w') = r \<and> r = e"
  by (auto simp add: err_def Let_def)

lemma signAndSubmit_lastErr: "signAndSubmit E t ks w = (r, w') \<Longrightarrow> lastErr (ms w') = r"
  by (auto simp add: signAndSubmit_def err_def Let_def)

lemma shaped_lastErr:
  assumes "shaped E src os w (r, w')"
  shows "lastErr (ms w') = r"
proof -
  from assms consider (refused) e w0 where "err (Some e) w0 = (r, w')"
    | (built) operation qs where "built E src os w operation qs = (r, w')"
    unfolding shaped_def by metis
  then show ?thesis
  proof cases
    case refused
    then show ?thesis by (simp add: err_lastErr)
  next
    case built
    then show ?thesis
      by (auto simp add: built_def dest: signAndSubmit_lastErr split: prod.splits)
  qed
qed



lemmas implicit_defs = built_def prepared_implicit NewTx_def blankTx_def SetOptions_def Build_def
  update_tx_def asked_def signAndSubmit_def err_def Tx_Err_def Tx_Sign_def Tx_Submit_def
  signerContext_def envelopeOf_def mergeOptions_def Opts_def Let_def ownEnvelope_def ownSigners_def

lemma built_implicit_unsigned:
  assumes "tx (ms w) = None"
    and "\<forall>opts rest. os = opts # rest \<longrightarrow> \<not> multiOp opts"
    and "built E src os w operation qs = (r, w')"
    and "signAll (sign E) (ownSigners src os) = Inl e"
  shows "r = Some e \<and> submitted w' = submitted w"
proof (cases os)
  case Nil
  with assms show ?thesis by (auto simp add: implicit_defs)
next
  case (Cons opts rest)
  with assms show ?thesis by (auto simp add: implicit_defs)
qed

lemma built_implicit_signed:
  assumes "tx (ms w) = None"
    and "\<forall>opts rest. os = opts # rest \<longrightarrow> \<not> multiOp opts"
    and "built E src os w operation qs = (r, w')"
    and "signAll (sign E) (ownSigners src os) = Inr sigs"
  shows "submitted w' = submitted w @ [ownEnvelope w src os operation sigs]
         \<and> r = (case submitEnvelope E (submitted w) (ownEnvelope w src os operation sigs) of
                  Inl e \<Rightarrow> Some e | Inr resp \<Rightarrow> None)"
proof (cases os)
  case Nil
  with assms show ?thesis
    by (cases "submitEnvelope E (submitted w) (ownEnvelope w src os operation sigs)")
       (auto simp add: implicit_defs)
next
  case (Cons opts rest)
  with assms show ?thesis
    by (cases "submitEnvelope E (submitted w) (ownEnvelope w src os operation sigs)")
       (auto simp add: implicit_defs)
qed









lemma signAndSubmit_frame:
  "ops (store (snd (signAndSubmit E t ks w)) a) = ops (store w a)"
  "pathQueries (snd (signAndSubmit E t ks w)) = pathQueries w"
  "options (store (snd (signAndSubmit E t ks w)) a) = options (store w a)"
  "tx (ms (snd (signAndSubmit E t ks w))) = tx (ms w)"
  by (auto simp add: signAndSubmit_def Tx_Sign_def Tx_Submit_def update_tx_def err_def Let_def
        split: sum.splits option.splits)

lemma prepared_frame:
  "ops (store (snd (prepared os w)) a) = ops (store (snd (getTx w)) a)"
  "pathQueries (snd (prepared os w)) = pathQueries w"
  "submitted (snd (prepared os w)) = submitted w"
  "ms (snd (prepared os w)) = ms w"
  "fst (prepared os w) = fst (getTx w)"
  by (auto simp add: prepared_def getTx_def NewTx_def SetOptions_def update_tx_def Let_def
        split: option.splits list.splits)

lemma prepared_options:
  "options (store (snd (prepared (opts # rest) w)) (fst (getTx w))) = Some opts"
  by (auto simp add: prepared_def getTx_def NewTx_def SetOptions_def update_tx_def Let_def
        split: option.splits)

lemma built_frame:
  "ops (store (snd (built E src os w operation qs)) (fst (getTx w)))
     = ops (store (snd (getTx w)) (fst (getTx w))) @ [(src, operation)]"
  "pathQueries (snd (built E src os w operation qs)) = pathQueries w @ qs"
  by (simp_all add: built_def signAndSubmit_frame Build_def update_tx_def asked_def prepared_frame
        split_beta)

section \<open>Running the model\<close>

lemmas eval_defs = simulated_def seedLike_def addressLike_def idle_def fresh_def New_def USD_def INR_def
  fourCalls_def openSession_def failedCall_def Start_def NewTx_def WithOptions_def SetOptions_def
  update_tx_def blankTx_def MultiOp_def mergeOptions_def Opts_def Build_def getTx_def
  signAndSubmit_def Tx_Sign_def Tx_Submit_def Tx_Err_def signerContext_def envelopeOf_def
  err_def errorf_def wrapf_def sourceAccount_def built_def prepared_def asked_def
  NativeAsset_def IsNative_def paymentMutators_def queryOf_def PayNative_def Let_def

lemmas demo_defs = signedBy_def searchFrom_def throughUSD_def withMemo_def viaUSD_def

section \<open>The claims\<close>

subsection \<open>C1: session atomicity\<close>




subsection \<open>C2: \<^verbatim>\<open>Start\<close> while a session is open\<close>

text \<open>
  Claim C2 says that \<^verbatim>\<open>Start\<close> on an open session fails with a session-state error and
  leaves that session as it is. \<^verbatim>\<open>Start\<close> (lines 209 to 212) has no error result and
  no test of \<^verbatim>\<open>ms.tx\<close>: it assigns a new builder unconditionally. What holds instead:
  the call reports no error (the last error stays what it was) and submits nothing; the
  builder of the session that was open is not modified, but it is no longer the handle's
  open transaction, which is now a new multi-op builder with no operation.
\<close>

theorem Start_replaces_open_session:
  assumes "tx (ms w) = Some t" and "t < nxt w"
  shows "tx (ms (Start src os w)) = Some (nxt w) \<and> nxt w \<noteq> t
         \<and> ops (store (Start src os w) (nxt w)) = []
         \<and> isMultiOp (store (Start src os w) (nxt w))
         \<and> store (Start src os w) t = store w t
         \<and> lastErr (ms (Start src os w)) = lastErr (ms w)
         \<and> submitted (Start src os w) = submitted w"
  using assms
  by (simp add: Start_def NewTx_def WithOptions_def SetOptions_def update_tx_def blankTx_def MultiOp_def Let_def)

text \<open>The amended claim on a session that holds one operation.\<close>

theorem Start_replaces_open_session_witness:
  "tx (ms openSession) = Some 0
   \<and> ops (store openSession 0) = [(''SALICE'', HomeDomain ''qubit.sh'')]
   \<and> tx (ms (Start ''SBOB'' [] openSession)) = Some 1
   \<and> ops (store (Start ''SBOB'' [] openSession) 1) = []
   \<and> ops (store (Start ''SBOB'' [] openSession) 0) = [(''SALICE'', HomeDomain ''qubit.sh'')]"
proof -
  have facts: "tx (ms openSession) = Some 0" "nxt openSession = 1"
    "ops (store openSession 0) = [(''SALICE'', HomeDomain ''qubit.sh'')]"
    by (simp_all add: nf_all eval_defs)
  have "(0::nat) < nxt openSession"
    by (simp add: facts)
  from Start_replaces_open_session [OF facts(1) this, of "''SBOB''" "[]"] facts
  show ?thesis by simp
qed

text \<open>
  The claim as stated fails there: the second \<^verbatim>\<open>Start\<close> leaves no error behind, and the
  handle's open transaction becomes another builder, which holds none of the operations
  accumulated so far.
\<close>

theorem Start_on_open_session_counterexample:
  "tx (ms openSession) = Some 0
   \<and> ops (store openSession 0) = [(''SALICE'', HomeDomain ''qubit.sh'')]
   \<and> Err (Start ''SBOB'' [] openSession) = None
   \<and> tx (ms (Start ''SBOB'' [] openSession)) = Some 1
   \<and> ops (store (Start ''SBOB'' [] openSession) 1) = []"
  by (simp add: nf_all eval_defs Err_def)

subsection \<open>C3: who signs\<close>

text \<open>
  Claim C3, of the single-operation transaction an operation method makes for itself: no
  session is open, and the bundle is not itself a session mark. A call of any of the
  methods with valid arguments signs as follows. If the bundle is absent or supplies no
  signer, the source identifier signs: when it can sign, exactly one envelope is submitted,
  with the operation of the call and the signature of the source alone, and the call
  returns the network's answer; when it cannot, the call returns the signing error and
  nothing is submitted. If the bundle supplies at least one signer, only the supplied
  signers sign, in their order: when they can sign, exactly one envelope is submitted, with
  the operation of the call and exactly their signatures, and the call returns the
  network's answer, no error when the network accepts, whether or not the source could
  have signed; so a public address as source succeeds. The choice of signers is made in
  \<^verbatim>\<open>Tx.Sign\<close>, which is modelled from the spec.
\<close>

theorem signer_context:
  assumes "tx (ms w) = None"
    and "\<forall>opts rest. bundlesOf c = opts # rest \<longrightarrow> \<not> multiOp opts"
    and "validArguments E c"
    and "invoke E c w = (r, w')"
  shows "(signerSeeds (mergeOptions (bundlesOf c)) = [] \<longrightarrow>
            (case sign E (sourceOf c) of
               Inl e \<Rightarrow> r = Some e \<and> submitted w' = submitted w
             | Inr sg \<Rightarrow> (\<exists>envelope. submitted w' = submitted w @ [envelope]
                            \<and> env_signatures envelope = [sg]
                            \<and> env_ops envelope = [(sourceOf c, operationOf E c)]
                            \<and> r = (case submitEnvelope E (submitted w) envelope of
                                     Inl e \<Rightarrow> Some e | Inr resp \<Rightarrow> None))))
       \<and> (signerSeeds (mergeOptions (bundlesOf c)) \<noteq> [] \<longrightarrow>
            (case signAll (sign E) (signerSeeds (mergeOptions (bundlesOf c))) of
               Inl e \<Rightarrow> r = Some e \<and> submitted w' = submitted w
             | Inr sigs \<Rightarrow> (\<exists>envelope. submitted w' = submitted w @ [envelope]
                              \<and> env_signatures envelope = sigs
                              \<and> env_ops envelope = [(sourceOf c, operationOf E c)]
                              \<and> r = (case submitEnvelope E (submitted w) envelope of
                                       Inl e \<Rightarrow> Some e | Inr resp \<Rightarrow> None))))"
proof -
  from valid_invoke [OF assms(3), of w] assms(4) obtain qs
    where b: "built E (sourceOf c) (bundlesOf c) w (operationOf E c) qs = (r, w')"
    by auto
  note unsigned = built_implicit_unsigned [OF assms(1) assms(2) b]
  note signed = built_implicit_signed [OF assms(1) assms(2) b]
  have own: "env_signatures (ownEnvelope w (sourceOf c) (bundlesOf c) (operationOf E c) sigs) = sigs"
    "env_ops (ownEnvelope w (sourceOf c) (bundlesOf c) (operationOf E c) sigs)
       = [(sourceOf c, operationOf E c)]" for sigs
    by (simp_all add: ownEnvelope_def)
  show ?thesis
  proof (intro conjI impI)
    assume none: "signerSeeds (mergeOptions (bundlesOf c)) = []"
    then have ks: "ownSigners (sourceOf c) (bundlesOf c) = [sourceOf c]"
      by (simp add: ownSigners_def)
    show "case sign E (sourceOf c) of
            Inl e \<Rightarrow> r = Some e \<and> submitted w' = submitted w
          | Inr sg \<Rightarrow> (\<exists>envelope. submitted w' = submitted w @ [envelope]
                         \<and> env_signatures envelope = [sg]
                         \<and> env_ops envelope = [(sourceOf c, operationOf E c)]
                         \<and> r = (case submitEnvelope E (submitted w) envelope of
                                  Inl e \<Rightarrow> Some e | Inr resp \<Rightarrow> None))"
    proof (cases "sign E (sourceOf c)")
      case (Inl e)
      then show ?thesis using unsigned [of e] ks by simp
    next
      case (Inr sg)
      then show ?thesis using signed [of "[sg]"] ks own by auto
    qed
  next
    assume some: "signerSeeds (mergeOptions (bundlesOf c)) \<noteq> []"
    then have ks: "ownSigners (sourceOf c) (bundlesOf c) = signerSeeds (mergeOptions (bundlesOf c))"
      by (simp add: ownSigners_def)
    show "case signAll (sign E) (signerSeeds (mergeOptions (bundlesOf c))) of
            Inl e \<Rightarrow> r = Some e \<and> submitted w' = submitted w
          | Inr sigs \<Rightarrow> (\<exists>envelope. submitted w' = submitted w @ [envelope]
                           \<and> env_signatures envelope = sigs
                           \<and> env_ops envelope = [(sourceOf c, operationOf E c)]
                           \<and> r = (case submitEnvelope E (submitted w) envelope of
                                    Inl e \<Rightarrow> Some e | Inr resp \<Rightarrow> None))"
    proof (cases "signAll (sign E) (signerSeeds (mergeOptions (bundlesOf c)))")
      case (Inl e)
      then show ?thesis using unsigned [of e] ks by simp
    next
      case (Inr sigs)
      then show ?thesis using signed [of sigs] ks own by auto
    qed
  qed
qed

text \<open>
  \<^verbatim>\<open>Pay\<close> and \<^verbatim>\<open>SetThresholds\<close> from an address, which cannot sign, succeed with
  one supplied signer and that signer's signature alone; \<^verbatim>\<open>Pay\<close> from a seed with no
  bundle is signed by the seed; \<^verbatim>\<open>Pay\<close> from an address with no bundle returns the
  signing error and submits nothing.
\<close>

theorem signer_context_witness:
  "sign (simulated []) ''GALICE'' = Inl (Collaborator ''not a seed'')
   \<and> fst (invoke (simulated []) (CallPay ''GALICE'' ''GBOB'' ''3'' USD [signedBy]) idle) = None
   \<and> (\<exists>envelope.
         submitted (snd (invoke (simulated []) (CallPay ''GALICE'' ''GBOB'' ''3'' USD [signedBy]) idle))
           = [envelope]
         \<and> env_signatures envelope = [''signed by SSIGNER''])
   \<and> fst (invoke (simulated []) (CallSetThresholds ''GALICE'' 1 2 3 [signedBy]) idle) = None
   \<and> (\<exists>envelope.
         submitted (snd (invoke (simulated []) (CallSetThresholds ''GALICE'' 1 2 3 [signedBy]) idle))
           = [envelope]
         \<and> env_signatures envelope = [''signed by SSIGNER'']
         \<and> env_ops envelope = [(''GALICE'', SetThresholdsOp 1 2 3)])
   \<and> fst (invoke (simulated []) (CallPay ''SALICE'' ''GBOB'' ''3'' USD []) idle) = None
   \<and> (\<exists>envelope.
         submitted (snd (invoke (simulated []) (CallPay ''SALICE'' ''GBOB'' ''3'' USD []) idle))
           = [envelope]
         \<and> env_signatures envelope = [''signed by SALICE''])
   \<and> fst (invoke (simulated []) (CallPay ''GALICE'' ''GBOB'' ''3'' USD []) idle)
       = Some (Collaborator ''not a seed'')
   \<and> submitted (snd (invoke (simulated []) (CallPay ''GALICE'' ''GBOB'' ''3'' USD []) idle)) = []"
proof -
  let ?E = "simulated []"
  let ?a = "CallPay ''GALICE'' ''GBOB'' ''3'' USD [signedBy]"
  let ?b = "CallSetThresholds ''GALICE'' 1 2 3 [signedBy]"
  let ?c = "CallPay ''SALICE'' ''GBOB'' ''3'' USD []"
  let ?d = "CallPay ''GALICE'' ''GBOB'' ''3'' USD []"
  have idle: "tx (ms idle) = None" "submitted idle = []"
    by (simp_all add: idle_def fresh_def New_def)
  have unmarked: "\<forall>opts rest. bundlesOf ?a = opts # rest \<longrightarrow> \<not> multiOp opts"
    "\<forall>opts rest. bundlesOf ?b = opts # rest \<longrightarrow> \<not> multiOp opts"
    "\<forall>opts rest. bundlesOf ?c = opts # rest \<longrightarrow> \<not> multiOp opts"
    "\<forall>opts rest. bundlesOf ?d = opts # rest \<longrightarrow> \<not> multiOp opts"
    by (simp_all add: signedBy_def Opts_def)
  have valid: "validArguments ?E ?a" "validArguments ?E ?b" "validArguments ?E ?c"
    "validArguments ?E ?d"
    by (simp_all add: validPayment_def simulated_def seedLike_def addressLike_def USD_def
          signedBy_def Opts_def)
  have signers: "signerSeeds (mergeOptions (bundlesOf ?a)) = [''SSIGNER'']"
    "signerSeeds (mergeOptions (bundlesOf ?b)) = [''SSIGNER'']"
    "signerSeeds (mergeOptions (bundlesOf ?c)) = []"
    "signerSeeds (mergeOptions (bundlesOf ?d)) = []"
    by (simp_all add: mergeOptions_def signedBy_def Opts_def)
  have keys: "signAll (sign ?E) [''SSIGNER''] = Inr [''signed by SSIGNER'']"
    "sign ?E ''SALICE'' = Inr ''signed by SALICE''"
    "sign ?E ''GALICE'' = Inl (Collaborator ''not a seed'')"
    "\<And>log e. submitEnvelope ?E log e = Inr \<lparr>Ledger = length log, Hash = ''ok''\<rparr>"
    "operationOf ?E ?b = SetThresholdsOp 1 2 3"
    by (simp_all add: simulated_def seedLike_def)
  have pair: "invoke ?E c idle = (fst (invoke ?E c idle), snd (invoke ?E c idle))" for c
    by simp
  from signer_context [OF idle(1) unmarked(1) valid(1) pair] signers(1) keys idle(2)
  have a: "fst (invoke ?E ?a idle) = None
     \<and> (\<exists>envelope. submitted (snd (invoke ?E ?a idle)) = [envelope]
           \<and> env_signatures envelope = [''signed by SSIGNER''])"
    by auto
  from signer_context [OF idle(1) unmarked(2) valid(2) pair] signers(2) keys idle(2)
  have b: "fst (invoke ?E ?b idle) = None
     \<and> (\<exists>envelope. submitted (snd (invoke ?E ?b idle)) = [envelope]
           \<and> env_signatures envelope = [''signed by SSIGNER'']
           \<and> env_ops envelope = [(''GALICE'', SetThresholdsOp 1 2 3)])"
    by auto
  from signer_context [OF idle(1) unmarked(3) valid(3) pair] signers(3) keys idle(2)
  have c: "fst (invoke ?E ?c idle) = None
     \<and> (\<exists>envelope. submitted (snd (invoke ?E ?c idle)) = [envelope]
           \<and> env_signatures envelope = [''signed by SALICE''])"
    by auto
  from signer_context [OF idle(1) unmarked(4) valid(4) pair] signers(4) keys idle(2)
  have d: "fst (invoke ?E ?d idle) = Some (Collaborator ''not a seed'')
     \<and> submitted (snd (invoke ?E ?d idle)) = []"
    by auto
  from a b c d keys(3) show ?thesis by blast
qed

subsection \<open>C4: no path found\<close>

text \<open>
  Claim C4. In \<^verbatim>\<open>Pay\<close> with valid arguments, a send asset in the bundle and no explicit
  hop list, when the path resolver returns no candidate, the call returns the error
  "no paths found from (send asset) to (asset)", no builder has an operation more than
  \<^verbatim>\<open>getTx\<close> found in it, nothing is submitted, and the last transaction is unchanged.
\<close>

theorem Pay_no_paths_found:
  assumes "Validate E asset = None"
    and "ValidAddressOrSeed E src" and "ValidAddressOrSeed E target"
    and "sendAsset opts = Some sendA" and "path opts = []"
    and "ValidAddress E (sourceAddress opts) = None"
    and "findPaths E \<lparr>q_sourceAddress = sourceAddress opts, q_targetAddress = target,
                       q_asset = asset, q_amount = amount, q_sendAsset = Some sendA,
                       q_maxAmount = maxAmount opts\<rparr> = Inr []"
  shows "\<exists>w'. Pay E src target amount asset (opts # rest) w
                = (Some (Errorf ''no paths found from %s to %s'' [Code sendA, Code asset]), w')
           \<and> (\<forall>a. ops (store w' a) = ops (store (snd (getTx w)) a))
           \<and> submitted w' = submitted w
           \<and> lastTx (ms w') = lastTx (ms w)"
  using assms
  by (simp add: nf_Pay queryOf_def errorf_def asked_def prepared_frame)

text \<open>A payment in INR paid with lumens when the resolver knows no path.\<close>

theorem Pay_no_paths_found_witness:
  "\<exists>w'. Pay (simulated []) ''SALICE'' ''GBOB'' ''2000'' INR [searchFrom] idle
           = (Some (Errorf ''no paths found from %s to %s'' [''XLM'', ''INR'']), w')
        \<and> ops (store w' 0) = [] \<and> submitted w' = [] \<and> lastTx (ms w') = None"
proof -
  let ?E = "simulated []"
  have h: "Validate ?E INR = None" "ValidAddressOrSeed ?E ''SALICE''" "ValidAddressOrSeed ?E ''GBOB''"
    "sendAsset searchFrom = Some NativeAsset" "path searchFrom = []"
    "ValidAddress ?E (sourceAddress searchFrom) = None"
    "findPaths ?E \<lparr>q_sourceAddress = sourceAddress searchFrom, q_targetAddress = ''GBOB'',
                    q_asset = INR, q_amount = ''2000'', q_sendAsset = Some NativeAsset,
                    q_maxAmount = maxAmount searchFrom\<rparr> = Inr []"
    by (simp_all add: eval_defs demo_defs)
  have i: "ops (store (snd (getTx idle)) 0) = []" "submitted idle = []" "lastTx (ms idle) = None"
    "Code NativeAsset = ''XLM''" "Code INR = ''INR''"
    by (simp_all add: eval_defs)
  from Pay_no_paths_found [OF h, of "[]" idle] i show ?thesis
    by auto
qed

subsection \<open>C5: the conversion path of a path payment\<close>

text \<open>
  Claim C5. In \<^verbatim>\<open>Pay\<close> with valid arguments and a send asset in the bundle: when the
  bundle has a non-empty hop list, the operation appended to the active builder has exactly
  that list, in its order, as its path, and the path resolver receives no query; when the
  hop list is empty, the source address of the search is valid and the resolver returns at
  least one candidate, the operation has the hops of the first candidate, in their order,
  as its path, and the resolver has received exactly this one query.
\<close>

theorem Pay_conversion_path:
  assumes "Validate E asset = None"
    and "ValidAddressOrSeed E src" and "ValidAddressOrSeed E target"
    and "sendAsset opts = Some sendA"
  shows "(path opts \<noteq> [] \<longrightarrow>
            ops (store (snd (Pay E src target amount asset (opts # rest) w)) (fst (getTx w)))
              = ops (store (snd (getTx w)) (fst (getTx w))) @
                [(src, Payment [Destination target,
                                if IsNative asset then NativeAmount amount
                                else CreditAmount (Code asset) (Issuer asset) amount,
                                PayPath (PayWithPath sendA (maxAmount opts) (path opts))])]
            \<and> pathQueries (snd (Pay E src target amount asset (opts # rest) w)) = pathQueries w)
       \<and> (\<forall>p ps. path opts = [] \<and> ValidAddress E (sourceAddress opts) = None
             \<and> findPaths E \<lparr>q_sourceAddress = sourceAddress opts, q_targetAddress = target,
                              q_asset = asset, q_amount = amount, q_sendAsset = Some sendA,
                              q_maxAmount = maxAmount opts\<rparr> = Inr (p # ps) \<longrightarrow>
            ops (store (snd (Pay E src target amount asset (opts # rest) w)) (fst (getTx w)))
              = ops (store (snd (getTx w)) (fst (getTx w))) @
                [(src, Payment [Destination target,
                                if IsNative asset then NativeAmount amount
                                else CreditAmount (Code asset) (Issuer asset) amount,
                                PayPath (PayWithPath sendA (maxAmount opts) (Hops p))])]
            \<and> pathQueries (snd (Pay E src target amount asset (opts # rest) w))
                = pathQueries w @
                  [\<lparr>q_sourceAddress = sourceAddress opts, q_targetAddress = target,
                    q_asset = asset, q_amount = amount, q_sendAsset = Some sendA,
                    q_maxAmount = maxAmount opts\<rparr>])"
  using assms
  by (simp add: nf_Pay queryOf_def built_frame paymentMutators_def)

text \<open>The path through USD, first given by the caller, then found by the resolver.\<close>

theorem Pay_conversion_path_witness:
  "ops (store (snd (Pay (simulated [viaUSD]) ''SALICE'' ''GBOB'' ''2000'' INR [throughUSD] idle)) 0)
     = [(''SALICE'', Payment [Destination ''GBOB'', CreditAmount ''INR'' ''GISSUER'' ''2000'',
                              PayPath (PayWithPath NativeAsset ''20'' [USD])])]
   \<and> pathQueries (snd (Pay (simulated [viaUSD]) ''SALICE'' ''GBOB'' ''2000'' INR [throughUSD] idle)) = []
   \<and> ops (store (snd (Pay (simulated [viaUSD]) ''SALICE'' ''GBOB'' ''2000'' INR [searchFrom] idle)) 0)
     = [(''SALICE'', Payment [Destination ''GBOB'', CreditAmount ''INR'' ''GISSUER'' ''2000'',
                              PayPath (PayWithPath NativeAsset ''20'' [USD])])]
   \<and> length (pathQueries (snd (Pay (simulated [viaUSD]) ''SALICE'' ''GBOB'' ''2000'' INR [searchFrom] idle)))
     = 1"
proof -
  let ?E = "simulated [viaUSD]"
  have h: "Validate ?E INR = None" "ValidAddressOrSeed ?E ''SALICE''" "ValidAddressOrSeed ?E ''GBOB''"
    by (simp_all add: eval_defs)
  have t: "sendAsset throughUSD = Some NativeAsset" "path throughUSD = [USD]"
    "maxAmount throughUSD = ''20''"
    by (simp_all add: demo_defs Opts_def)
  have s: "sendAsset searchFrom = Some NativeAsset" "path searchFrom = []"
    "maxAmount searchFrom = ''20''"
    "ValidAddress ?E (sourceAddress searchFrom) = None"
    "findPaths ?E \<lparr>q_sourceAddress = sourceAddress searchFrom, q_targetAddress = ''GBOB'',
                    q_asset = INR, q_amount = ''2000'', q_sendAsset = Some NativeAsset,
                    q_maxAmount = maxAmount searchFrom\<rparr> = Inr [viaUSD]"
    "Hops viaUSD = [USD]"
    by (simp_all add: eval_defs demo_defs)
  have i: "fst (getTx idle) = 0" "ops (store (snd (getTx idle)) 0) = []" "pathQueries idle = []"
    "\<not> IsNative INR" "Code INR = ''INR''" "Issuer INR = ''GISSUER''"
    by (simp_all add: eval_defs)
  from Pay_conversion_path [OF h t(1), of "''2000''" "[]" idle] t i
  have explicit:
    "ops (store (snd (Pay ?E ''SALICE'' ''GBOB'' ''2000'' INR [throughUSD] idle)) 0)
       = [(''SALICE'', Payment [Destination ''GBOB'', CreditAmount ''INR'' ''GISSUER'' ''2000'',
                                PayPath (PayWithPath NativeAsset ''20'' [USD])])]
     \<and> pathQueries (snd (Pay ?E ''SALICE'' ''GBOB'' ''2000'' INR [throughUSD] idle)) = []"
    by simp
  from Pay_conversion_path [OF h s(1), of "''2000''" "[]" idle] s i
  have resolved:
    "ops (store (snd (Pay ?E ''SALICE'' ''GBOB'' ''2000'' INR [searchFrom] idle)) 0)
       = [(''SALICE'', Payment [Destination ''GBOB'', CreditAmount ''INR'' ''GISSUER'' ''2000'',
                                PayPath (PayWithPath NativeAsset ''20'' [USD])])]
     \<and> length (pathQueries (snd (Pay ?E ''SALICE'' ''GBOB'' ''2000'' INR [searchFrom] idle))) = 1"
    by simp
  from explicit resolved show ?thesis by blast
qed

subsection \<open>C6: closing when no session is open\<close>

text \<open>
  Claim C6. With no open transaction on the handle, \<^verbatim>\<open>Submit\<close> returns the error
  "can't submit, not a multi-op transaction" and \<^verbatim>\<open>Payload\<close> returns the empty payload
  with the error "can't generate payload, Start() not called". In both cases the handle is
  as before but for its last error (no open transaction, the same last transaction), the
  network has received nothing, and every builder that existed is untouched (the builder
  \<^verbatim>\<open>getTx\<close> allocated for the test is dropped).
\<close>

theorem close_without_session:
  assumes "tx (ms w) = None"
  shows "(\<exists>w'. Submit E w = Inr (Some (Errorf ''can't submit, not a multi-op transaction'' []), w')
            \<and> ms w' = (ms w)\<lparr>lastErr := Some (Errorf ''can't submit, not a multi-op transaction'' [])\<rparr>
            \<and> submitted w' = submitted w
            \<and> (\<forall>a. a \<noteq> nxt w \<longrightarrow> store w' a = store w a))
       \<and> (\<exists>w'. Payload E w = (([], Some (Errorf ''can't generate payload, Start() not called'' [])), w')
            \<and> ms w' = (ms w)\<lparr>lastErr := Some (Errorf ''can't generate payload, Start() not called'' [])\<rparr>
            \<and> submitted w' = submitted w
            \<and> (\<forall>a. a \<noteq> nxt w \<longrightarrow> store w' a = store w a))"
  using assms
  by (simp add: Submit_def Payload_def getTx_def NewTx_def blankTx_def errorf_def Let_def)

text \<open>Both calls on a handle that has done nothing yet.\<close>

theorem close_without_session_witness:
  "tx (ms idle) = None
   \<and> (\<exists>w'. Submit (simulated []) idle
              = Inr (Some (Errorf ''can't submit, not a multi-op transaction'' []), w')
            \<and> tx (ms w') = None \<and> submitted w' = [])
   \<and> (\<exists>w'. Payload (simulated []) idle
              = (([], Some (Errorf ''can't generate payload, Start() not called'' [])), w')
            \<and> tx (ms w') = None \<and> submitted w' = [])"
proof -
  have i: "tx (ms idle) = None" "submitted idle = []"
    by (simp_all add: eval_defs)
  from close_without_session [OF i(1), of "simulated []"] i show ?thesis
    by auto
qed

subsection \<open>C7: the last error\<close>

text \<open>
  Claim C7 says that every public mutating method, \<^verbatim>\<open>Start\<close> included, sets the last
  error to the error of the call and clears it on success. This holds of every operation
  method, of \<^verbatim>\<open>Submit\<close> and of \<^verbatim>\<open>Payload\<close>: the last error after the call is the
  error returned, none when the call succeeds. It does not hold of \<^verbatim>\<open>Start\<close>, which has
  no error result and never assigns \<^verbatim>\<open>lastErr\<close>: it leaves the last error as it was.
\<close>

theorem last_error_tracks_result:
  "(\<forall>r w'. invoke E c w = (r, w') \<longrightarrow> lastErr (ms w') = r)
   \<and> (\<forall>r w'. Submit E w = Inr (r, w') \<longrightarrow> lastErr (ms w') = r)
   \<and> (\<forall>p r w'. Payload E w = ((p, r), w') \<longrightarrow> lastErr (ms w') = r)
   \<and> lastErr (ms (Start src os w)) = lastErr (ms w)"
proof (intro conjI allI impI)
  fix r w' assume "invoke E c w = (r, w')"
  then have "shaped E (sourceOf c) (bundlesOf c) w (r, w')"
    using shaped_invoke [of E c w] by simp
  then show "lastErr (ms w') = r" by (rule shaped_lastErr)
next
  fix r w' assume "Submit E w = Inr (r, w')"
  then show "lastErr (ms w') = r"
    by (auto simp add: Submit_def errorf_def err_def Let_def split: prod.splits if_splits option.splits)
next
  fix p r w' assume "Payload E w = ((p, r), w')"
  then show "lastErr (ms w') = r"
    by (auto simp add: Payload_def errorf_def err_def Let_def split: prod.splits if_splits)
next
  show "lastErr (ms (Start src os w)) = lastErr (ms w)"
    by (simp add: Start_def NewTx_def WithOptions_def SetOptions_def update_tx_def Let_def)
qed

text \<open>
  After a refused call, a successful operation clears the last error, and \<^verbatim>\<open>Start\<close>
  keeps it.
\<close>

theorem last_error_tracks_result_witness:
  "fst (invoke (simulated []) (CallSetHomeDomain ''SALICE'' ''qubit.sh'' []) failedCall) = None
   \<and> lastErr (ms failedCall) \<noteq> None
   \<and> lastErr (ms (snd (invoke (simulated []) (CallSetHomeDomain ''SALICE'' ''qubit.sh'' []) failedCall)))
       = None
   \<and> lastErr (ms (Start ''SALICE'' [] failedCall)) = lastErr (ms failedCall)"
proof -
  let ?c = "CallSetHomeDomain ''SALICE'' ''qubit.sh'' []"
  have r: "fst (invoke (simulated []) ?c failedCall) = None" and e: "lastErr (ms failedCall) \<noteq> None"
    by (simp_all add: nf_all eval_defs)
  have "invoke (simulated []) ?c failedCall
          = (fst (invoke (simulated []) ?c failedCall), snd (invoke (simulated []) ?c failedCall))"
    by simp
  with last_error_tracks_result [of "simulated []" ?c failedCall "''SALICE''" "[]"] r e
  show ?thesis by metis
qed

text \<open>
  The claim as stated fails for \<^verbatim>\<open>Start\<close>: it cannot fail, and after it \<^verbatim>\<open>Err\<close>
  still returns the error of the call before.
\<close>

theorem Start_keeps_last_error_counterexample:
  "Err failedCall
     = Some (Errorf ''can't set home domain: invalid source address or seed: %s'' [''nobody''])
   \<and> Err (Start ''SALICE'' [] failedCall)
       = Some (Errorf ''can't set home domain: invalid source address or seed: %s'' [''nobody''])"
  by (simp add: nf_all eval_defs Err_def)

subsection \<open>C8: the bounds of \<^verbatim>\<open>SetData\<close>\<close>

text \<open>
  Claim C8. For a valid source identifier (the precondition of every operation method),
  \<^verbatim>\<open>SetData\<close> builds no operation exactly when the key is empty, the key is longer than
  64 bytes or the value is longer than 64 bytes. In that case it returns one of its three
  data errors, no builder gains an operation and nothing is submitted; otherwise the
  operation that sets the key to the value is appended to the active builder. A key of 64
  bytes with a value of 64 bytes is such a case.
\<close>

theorem SetData_validation:
  assumes "ValidAddressOrSeed E src"
  shows "((ops (store (snd (SetData E src key val os w)) (fst (getTx w)))
             = ops (store (snd (getTx w)) (fst (getTx w))))
            = (key = [] \<or> 64 < length key \<or> 64 < length val))
       \<and> ((key = [] \<or> 64 < length key \<or> 64 < length val) \<longrightarrow>
            fst (SetData E src key val os w) \<in>
              {Some (Errorf ''data key must not be empty'' []),
               Some (Errorf ''data key must be under 64 bytes: %s'' [key]),
               Some (Errorf ''data value must be under 64 bytes: %s'' [val])}
            \<and> (\<forall>a. ops (store (snd (SetData E src key val os w)) a) = ops (store (snd (getTx w)) a))
            \<and> submitted (snd (SetData E src key val os w)) = submitted w)
       \<and> (\<not> (key = [] \<or> 64 < length key \<or> 64 < length val) \<longrightarrow>
            ops (store (snd (SetData E src key val os w)) (fst (getTx w)))
              = ops (store (snd (getTx w)) (fst (getTx w))) @ [(src, SetDataOp key val)])
       \<and> (length key = 64 \<and> length val = 64 \<longrightarrow>
            ops (store (snd (SetData E src key val os w)) (fst (getTx w)))
              = ops (store (snd (getTx w)) (fst (getTx w))) @ [(src, SetDataOp key val)])"
  using assms
  by (auto simp add: nf_SetData errorf_def built_frame prepared_frame)

text \<open>A key and a value of 64 bytes pass; a key of 65 bytes is refused.\<close>

theorem SetData_validation_witness:
  "ValidAddressOrSeed (simulated []) ''SALICE''
   \<and> ops (store (snd (SetData (simulated []) ''SALICE'' (replicate 64 (CHR ''k''))
                        (replicate 64 (CHR ''v'')) [] idle)) 0)
       = [(''SALICE'', SetDataOp (replicate 64 (CHR ''k'')) (replicate 64 (CHR ''v'')))]
   \<and> fst (SetData (simulated []) ''SALICE'' (replicate 65 (CHR ''k'')) ''v'' [] idle) \<noteq> None
   \<and> ops (store (snd (SetData (simulated []) ''SALICE'' (replicate 65 (CHR ''k'')) ''v'' [] idle)) 0)
       = []"
proof -
  let ?E = "simulated []"
  have v: "ValidAddressOrSeed ?E ''SALICE''"
    by (simp add: eval_defs)
  have i: "fst (getTx idle) = 0" "ops (store (snd (getTx idle)) 0) = []"
    by (simp_all add: eval_defs)
  from SetData_validation [OF v, of "replicate 64 (CHR ''k'')" "replicate 64 (CHR ''v'')" "[]" idle] i
  have fits: "ops (store (snd (SetData ?E ''SALICE'' (replicate 64 (CHR ''k''))
                                 (replicate 64 (CHR ''v'')) [] idle)) 0)
                = [(''SALICE'', SetDataOp (replicate 64 (CHR ''k'')) (replicate 64 (CHR ''v'')))]"
    by simp
  from SetData_validation [OF v, of "replicate 65 (CHR ''k'')" "''v''" "[]" idle] i
  have long: "fst (SetData ?E ''SALICE'' (replicate 65 (CHR ''k'')) ''v'' [] idle) \<noteq> None
              \<and> ops (store (snd (SetData ?E ''SALICE'' (replicate 65 (CHR ''k'')) ''v'' [] idle)) 0) = []"
    by auto
  from v fits long show ?thesis by blast
qed

subsection \<open>C9: the bundle is applied before the data is validated\<close>

text \<open>
  Claim C9. In an open session, a call of \<^verbatim>\<open>SetData\<close> whose key or value fails the
  length validation, or of \<^verbatim>\<open>ClearData\<close> whose key is too long, with a valid source and
  a bundle, returns an error and appends no operation, and yet the options of the session's
  builder are now the bundle of the failed call: \<^verbatim>\<open>tx.SetOptions\<close> runs first.
\<close>

theorem options_applied_before_validation:
  assumes "tx (ms w) = Some t" and "ValidAddressOrSeed E src"
  shows "((key = [] \<or> 64 < length key \<or> 64 < length val) \<longrightarrow>
            fst (SetData E src key val (opts # rest) w) \<noteq> None
            \<and> options (store (snd (SetData E src key val (opts # rest) w)) t) = Some opts
            \<and> ops (store (snd (SetData E src key val (opts # rest) w)) t) = ops (store w t)
            \<and> tx (ms (snd (SetData E src key val (opts # rest) w))) = Some t)
       \<and> (64 < length key \<longrightarrow>
            fst (ClearData E src key (opts # rest) w) \<noteq> None
            \<and> options (store (snd (ClearData E src key (opts # rest) w)) t) = Some opts
            \<and> ops (store (snd (ClearData E src key (opts # rest) w)) t) = ops (store w t)
            \<and> tx (ms (snd (ClearData E src key (opts # rest) w))) = Some t)"
  using assms prepared_options [of opts rest w] prepared_frame(1) [of "opts # rest" w t]
    prepared_frame(4) [of "opts # rest" w]
  by (auto simp add: nf_SetData nf_ClearData errorf_def getTx_def)

text \<open>
  The options of the open session were those of \<^verbatim>\<open>Start\<close>; after the refused calls
  they are the bundle with the memo.
\<close>

theorem options_applied_before_validation_witness:
  "options (store openSession 0) = Some (MultiOp ''SALICE'' Opts)
   \<and> fst (SetData (simulated []) ''SALICE'' [] ''v'' [withMemo] openSession) \<noteq> None
   \<and> options (store (snd (SetData (simulated []) ''SALICE'' [] ''v'' [withMemo] openSession)) 0)
       = Some withMemo
   \<and> options (store (snd (ClearData (simulated []) ''SALICE'' (replicate 65 (CHR ''k''))
                            [withMemo] openSession)) 0)
       = Some withMemo
   \<and> withMemo \<noteq> MultiOp ''SALICE'' Opts"
proof -
  let ?E = "simulated []"
  have o: "tx (ms openSession) = Some 0" "options (store openSession 0) = Some (MultiOp ''SALICE'' Opts)"
    by (simp_all add: nf_all eval_defs)
  have v: "ValidAddressOrSeed ?E ''SALICE''"
    by (simp add: eval_defs)
  have d: "withMemo \<noteq> MultiOp ''SALICE'' Opts"
    by (simp add: demo_defs MultiOp_def Opts_def)
  from options_applied_before_validation [OF o(1) v, of "[]" "''v''" withMemo "[]"]
  have a: "fst (SetData ?E ''SALICE'' [] ''v'' [withMemo] openSession) \<noteq> None
           \<and> options (store (snd (SetData ?E ''SALICE'' [] ''v'' [withMemo] openSession)) 0)
               = Some withMemo"
    by simp
  from options_applied_before_validation
         [OF o(1) v, of "replicate 65 (CHR ''k'')" "''v''" withMemo "[]"]
  have b: "options (store (snd (ClearData ?E ''SALICE'' (replicate 65 (CHR ''k''))
                                  [withMemo] openSession)) 0) = Some withMemo"
    by simp
  from o a b d show ?thesis by blast
qed

end
